theory Spec2Isabelle
  imports Main "HOL-Library.Word"
begin

section \<open>Python values\<close>

text \<open>
  A Python \<open>str\<close> is a sequence of Unicode code points, so it is modelled as a list of
  natural numbers: slicing and \<open>split\<close> count code points, as the source's
  \<open>[:2]\<close> does. \<open>py\<close> turns an ASCII literal into such a string; the Cyrillic
  literals of the source are written out as their code points.
\<close>

type_synonym pystr = "nat list"

definition py :: "string \<Rightarrow> pystr" where
  "py s = map of_char s"

text \<open>The exceptions that the modelled code can raise besides its own \<open>CustomError\<close>.\<close>

datatype py_exc =
    KeyError | TypeError | AttributeError | IndexError
  | UnicodeEncodeError | JSONDecodeError | RequestException

text \<open>
  What \<open>json()\<close> returns and what the handler builds from it: \<open>None\<close>, booleans,
  integers, floats (their 64 bits, never inspected), strings, lists and dictionaries.
  A dictionary keeps insertion order, so it is an association list; its keys are strings
  (JSON objects, the presentation model) or integers (the re-indexed approval entries).
\<close>

datatype pykey = KStr pystr | KInt int

datatype pyobj =
    PNone
  | PBool bool
  | PInt int
  | PFloat "64 word"
  | PStr pystr
  | PList "pyobj list"
  | PDict "(pykey \<times> pyobj) list"

text \<open>Sequencing of a computation that may raise: the first exception wins.\<close>

definition and_then :: "'e + 'a \<Rightarrow> ('a \<Rightarrow> 'e + 'b) \<Rightarrow> 'e + 'b" where
  "and_then r f = (case r of Inl e \<Rightarrow> Inl e | Inr x \<Rightarrow> f x)"

subsection \<open>Dictionary operations\<close>

text \<open>\<open>k in d\<close>, \<open>d[k]\<close> (raising \<open>KeyError\<close>), \<open>d.get(k, default)\<close> and \<open>d[k] = v\<close>.\<close>

definition dict_contains :: "('k \<times> 'v) list \<Rightarrow> 'k \<Rightarrow> bool" where
  "dict_contains d k = (map_of d k \<noteq> None)"

definition dict_getitem :: "('k \<times> 'v) list \<Rightarrow> 'k \<Rightarrow> py_exc + 'v" where
  "dict_getitem d k = (case map_of d k of None \<Rightarrow> Inl KeyError | Some v \<Rightarrow> Inr v)"

definition dict_get :: "('k \<times> 'v) list \<Rightarrow> 'k \<Rightarrow> 'v \<Rightarrow> 'v" where
  "dict_get d k dflt = (case map_of d k of None \<Rightarrow> dflt | Some v \<Rightarrow> v)"

fun dict_setitem :: "('k \<times> 'v) list \<Rightarrow> 'k \<Rightarrow> 'v \<Rightarrow> ('k \<times> 'v) list" where
  "dict_setitem [] k v = [(k, v)]"
| "dict_setitem ((k', v') # d) k v =
     (if k' = k then (k', v) # d else (k', v') # dict_setitem d k v)"

section \<open>Localized error messages\<close>

text \<open>
  The table of \<open>get_error_messages\<close>: error code, then locale, then message text. Each
  text is a constant of its own; the \<open>ru\<close> texts are the source's Cyrillic literals, code
  point by code point.
\<close>

definition msg_400_en :: pystr where
  "msg_400_en = py ''Invalid or missing query parameters: `type` and `ref` are required.''"

definition msg_400_ru :: pystr where
  "msg_400_ru =
     [1053, 1077, 1082, 1086, 1088, 1088, 1077, 1082, 1090, 1085, 1099, 1077, 32, 1080,
      1083, 1080, 32, 1086, 1090, 1089, 1091, 1090, 1089, 1090, 1074, 1091, 1102, 1097,
      1080, 1077, 32, 1087, 1072, 1088, 1072, 1084, 1077, 1090, 1088, 1099, 32, 1079, 1072,
      1087, 1088, 1086, 1089, 1072, 58, 32, 96, 116, 121, 112, 101, 96, 32, 1080, 32, 96,
      114, 101, 102, 96, 32, 1086, 1073, 1103, 1079, 1072, 1090, 1077, 1083, 1100, 1085,
      1099, 46]"

definition msg_404_en :: pystr where
  "msg_404_en = py ''Document not found''"

definition msg_404_ru :: pystr where
  "msg_404_ru =
     [1044, 1086, 1082, 1091, 1084, 1077, 1085, 1090, 32, 1085, 1077, 32, 1085, 1072, 1081,
      1076, 1077, 1085]"

definition msg_409_en :: pystr where
  "msg_409_en = py ''Document not signed''"

definition msg_409_ru :: pystr where
  "msg_409_ru =
     [1044, 1086, 1082, 1091, 1084, 1077, 1085, 1090, 32, 1085, 1077, 32, 1087, 1086, 1076,
      1087, 1080, 1089, 1072, 1085]"

definition msg_500_en :: pystr where
  "msg_500_en = py ''Service is unavailable''"

definition msg_500_ru :: pystr where
  "msg_500_ru =
     [1057, 1077, 1088, 1074, 1080, 1089, 32, 1085, 1077, 1076, 1086, 1089, 1090, 1091,
      1087, 1077, 1085]"

definition messages :: "(int \<times> (pystr \<times> pystr) list) list" where
  "messages =
   [(400, [(py ''en'', msg_400_en), (py ''ru'', msg_400_ru)]),
    (404, [(py ''en'', msg_404_en), (py ''ru'', msg_404_ru)]),
    (409, [(py ''en'', msg_409_en), (py ''ru'', msg_409_ru)]),
    (500, [(py ''en'', msg_500_en), (py ''ru'', msg_500_ru)])]"

text \<open>
  \<^verbatim>\<open>
  if error_code not in messages:
      return messages[500].get(lang, 'en')
  return messages[error_code].get(lang, 'en')
  \<close>
  The second argument of \<open>get\<close> is the value returned for a missing key: the string
  \<open>'en'\<close> itself.
\<close>

definition get_error_messages :: "int \<Rightarrow> pystr \<Rightarrow> py_exc + pystr" where
  "get_error_messages error_code lang =
     (if \<not> dict_contains messages error_code
      then and_then (dict_getitem messages 500) (\<lambda>entry. Inr (dict_get entry lang (py ''en'')))
      else and_then (dict_getitem messages error_code)
             (\<lambda>entry. Inr (dict_get entry lang (py ''en''))))"

section \<open>Request locale\<close>

text \<open>
  \<open>str.split(sep)\<close> for a one-character separator: a scan that closes the current
  segment at every separator, so the result always has at least one segment.
\<close>

fun split_acc :: "nat \<Rightarrow> pystr \<Rightarrow> pystr \<Rightarrow> pystr list" where
  "split_acc sep cur [] = [rev cur]"
| "split_acc sep cur (c # cs) =
     (if c = sep then rev cur # split_acc sep [] cs else split_acc sep (c # cur) cs)"

definition str_split :: "pystr \<Rightarrow> nat \<Rightarrow> pystr list" where
  "str_split s sep = split_acc sep [] s"

text \<open>\<open>xs[0]\<close>, which raises \<open>IndexError\<close> on an empty list.\<close>

definition list_first :: "'a list \<Rightarrow> py_exc + 'a" where
  "list_first xs = (case xs of [] \<Rightarrow> Inl IndexError | x # _ \<Rightarrow> Inr x)"

text \<open>
  The incoming request: the query arguments and the headers, each read with \<open>get\<close>.
\<close>

record request =
  args :: "pystr \<rightharpoonup> pystr"
  headers :: "pystr \<rightharpoonup> pystr"

text \<open>
  \<^verbatim>\<open>lang = inc_req.headers.get('Accept-Language', 'en').split(',')[0]\<close>
\<close>

definition get_user_language :: "request \<Rightarrow> py_exc + pystr" where
  "get_user_language inc_req =
     list_first
       (str_split
          (case headers inc_req (py ''Accept-Language'') of
             None \<Rightarrow> py ''en'' | Some h \<Rightarrow> h)
          (of_char CHR '',''))"

text \<open>\<open>get_user_language()[:2]\<close>, as \<open>get_doc\<close> computes the preferred language.\<close>

definition preferred_language :: "request \<Rightarrow> py_exc + pystr" where
  "preferred_language inc_req = and_then (get_user_language inc_req) (\<lambda>lang. Inr (take 2 lang))"

section \<open>Percent-encoding of the query values\<close>

text \<open>
  \<open>urllib.parse.quote(string)\<close> as \<open>get_doc\<close> calls it, with the library's defaults
  \<open>safe='/'\<close>, \<open>encoding='utf-8'\<close>, \<open>errors='strict'\<close>: the string is encoded to
  UTF-8 bytes (a lone surrogate raises \<open>UnicodeEncodeError\<close>), and every byte outside the
  unreserved characters and \<open>safe\<close> becomes \<open>%XX\<close> with upper-case hexadecimal digits.
  Bytes are natural numbers below 256.
\<close>

type_synonym bytes = "nat list"

definition utf8_encode_char :: "nat \<Rightarrow> py_exc + bytes" where
  "utf8_encode_char c =
     (if c < 0x80 then Inr [c]
      else if c < 0x800 then Inr [0xC0 + c div 0x40, 0x80 + c mod 0x40]
      else if 0xD800 \<le> c \<and> c \<le> 0xDFFF then Inl UnicodeEncodeError
      else if c < 0x10000 then
        Inr [0xE0 + c div 0x1000, 0x80 + c div 0x40 mod 0x40, 0x80 + c mod 0x40]
      else if c < 0x110000 then
        Inr [0xF0 + c div 0x40000, 0x80 + c div 0x1000 mod 0x40,
             0x80 + c div 0x40 mod 0x40, 0x80 + c mod 0x40]
      else Inl UnicodeEncodeError)"

fun str_encode :: "pystr \<Rightarrow> py_exc + bytes" where
  "str_encode [] = Inr []"
| "str_encode (c # cs) =
     and_then (utf8_encode_char c) (\<lambda>bs. and_then (str_encode cs) (\<lambda>rest. Inr (bs @ rest)))"

definition always_safe :: "nat list" where
  "always_safe =
     py ''ABCDEFGHIJKLMNOPQRSTUVWXYZabcdefghijklmnopqrstuvwxyz0123456789_.-~''"

definition hex_digit :: "nat \<Rightarrow> nat" where
  "hex_digit n = (if n < 10 then of_char CHR ''0'' + n else of_char CHR ''A'' + (n - 10))"

definition quote_byte :: "nat list \<Rightarrow> nat \<Rightarrow> pystr" where
  "quote_byte safe b =
     (if b \<in> set safe then [b]
      else [of_char CHR ''%'', hex_digit (b div 16), hex_digit (b mod 16)])"

definition quote_from_bytes :: "bytes \<Rightarrow> nat list \<Rightarrow> pystr" where
  "quote_from_bytes bs safe = concat (map (quote_byte (always_safe @ safe)) bs)"

definition quote :: "pystr \<Rightarrow> py_exc + pystr" where
  "quote string =
     (if string = [] then Inr string
      else and_then (str_encode string) (\<lambda>bs. Inr (quote_from_bytes bs (py ''/''))))"

subsection \<open>Decoding on the upstream side\<close>

text \<open>
  The upstream service is not part of the repository. Its reading of a query value is
  modelled as the standard one: percent-decoding of the ASCII text (a \<open>%\<close> followed by two
  hexadecimal digits is one byte, any other character is itself), then UTF-8 decoding of
  the bytes, which fails on an ill-formed sequence.
\<close>

definition hex_value :: "nat \<Rightarrow> nat option" where
  "hex_value c =
     (if of_char CHR ''0'' \<le> c \<and> c \<le> of_char CHR ''9'' then Some (c - of_char CHR ''0'')
      else if of_char CHR ''A'' \<le> c \<and> c \<le> of_char CHR ''F'' then Some (c - of_char CHR ''A'' + 10)
      else if of_char CHR ''a'' \<le> c \<and> c \<le> of_char CHR ''f'' then Some (c - of_char CHR ''a'' + 10)
      else None)"

fun percent_decode :: "pystr \<Rightarrow> bytes" where
  "percent_decode [] = []"
| "percent_decode (c # cs) =
     (if c = of_char CHR ''%'' then
        (case cs of
           h1 # h2 # rest \<Rightarrow>
             (case (hex_value h1, hex_value h2) of
                (Some a, Some b) \<Rightarrow> (16 * a + b) # percent_decode rest
              | _ \<Rightarrow> c # percent_decode cs)
         | _ \<Rightarrow> c # percent_decode cs)
      else c # percent_decode cs)"

definition is_cont :: "nat \<Rightarrow> bool" where
  "is_cont b = (0x80 \<le> b \<and> b < 0xC0)"

text \<open>
  One decoded code point in front of the decoded rest, when the sequence that gave it was
  well formed.
\<close>

definition decoded :: "bool \<Rightarrow> nat \<Rightarrow> pystr option \<Rightarrow> pystr option" where
  "decoded ok c r = (if ok then map_option ((#) c) r else None)"

definition code2 :: "nat \<Rightarrow> nat \<Rightarrow> nat" where
  "code2 b0 b1 = (b0 - 0xC0) * 0x40 + (b1 - 0x80)"

definition code3 :: "nat \<Rightarrow> nat \<Rightarrow> nat \<Rightarrow> nat" where
  "code3 b0 b1 b2 = (b0 - 0xE0) * 0x1000 + (b1 - 0x80) * 0x40 + (b2 - 0x80)"

definition code4 :: "nat \<Rightarrow> nat \<Rightarrow> nat \<Rightarrow> nat \<Rightarrow> nat" where
  "code4 b0 b1 b2 b3 =
     (b0 - 0xF0) * 0x40000 + (b1 - 0x80) * 0x1000 + (b2 - 0x80) * 0x40 + (b3 - 0x80)"

text \<open>
  Strict UTF-8: continuation bytes must be continuation bytes, and an overlong form, a
  surrogate or a value from 0x110000 on is rejected.
\<close>

fun utf8_decode :: "bytes \<Rightarrow> pystr option" where
  "utf8_decode [] = Some []"
| "utf8_decode (b0 # bs) =
     (if b0 < 0x80 then decoded True b0 (utf8_decode bs)
      else if 0xC0 \<le> b0 \<and> b0 < 0xE0 then
        (case bs of
           b1 # rest \<Rightarrow>
             decoded (is_cont b1 \<and> 0x80 \<le> code2 b0 b1) (code2 b0 b1) (utf8_decode rest)
         | _ \<Rightarrow> None)
      else if 0xE0 \<le> b0 \<and> b0 < 0xF0 then
        (case bs of
           b1 # b2 # rest \<Rightarrow>
             decoded
               (is_cont b1 \<and> is_cont b2 \<and> 0x800 \<le> code3 b0 b1 b2
                \<and> \<not> (0xD800 \<le> code3 b0 b1 b2 \<and> code3 b0 b1 b2 \<le> 0xDFFF))
               (code3 b0 b1 b2) (utf8_decode rest)
         | _ \<Rightarrow> None)
      else if 0xF0 \<le> b0 \<and> b0 < 0xF8 then
        (case bs of
           b1 # b2 # b3 # rest \<Rightarrow>
             decoded
               (is_cont b1 \<and> is_cont b2 \<and> is_cont b3 \<and> 0x10000 \<le> code4 b0 b1 b2 b3
                \<and> code4 b0 b1 b2 b3 < 0x110000)
               (code4 b0 b1 b2 b3) (utf8_decode rest)
         | _ \<Rightarrow> None)
      else None)"

definition upstream_decode :: "pystr \<Rightarrow> pystr option" where
  "upstream_decode q = utf8_decode (percent_decode q)"

section \<open>The upstream payload\<close>

text \<open>
  The keys of the upstream JSON are Cyrillic words. Each constant below is one key of the
  source, code point by code point; its name is the English reading of the word.
\<close>

definition k_DocumentData :: pystr where
  "k_DocumentData =
     [1044, 1072, 1085, 1085, 1099, 1077, 1044,
      1086, 1082, 1091, 1084, 1077, 1085, 1090, 1072]"

definition k_Name :: pystr where
  "k_Name = [1053, 1072, 1080, 1084, 1077, 1085, 1086, 1074, 1072, 1085, 1080, 1077]"

definition k_DocumentNumber :: pystr where
  "k_DocumentNumber =
     [1053, 1086, 1084, 1077, 1088, 1044, 1086,
      1082, 1091, 1084, 1077, 1085, 1090, 1072]"

definition k_RegistrationDate :: pystr where
  "k_RegistrationDate =
     [1044, 1072, 1090, 1072, 1056, 1077, 1075,
      1080, 1089, 1090, 1088, 1072, 1094, 1080, 1080]"

definition k_RegisteredBy :: pystr where
  "k_RegisteredBy =
     [1047, 1072, 1088, 1077, 1075, 1080, 1089,
      1090, 1088, 1080, 1088, 1086, 1074, 1072, 1083]"

definition k_PreparedBy :: pystr where
  "k_PreparedBy = [1055, 1086, 1076, 1075, 1086, 1090, 1086, 1074, 1080, 1083]"

definition k_SignatureData :: pystr where
  "k_SignatureData =
     [1044, 1072, 1085, 1085, 1099, 1077,
      1055, 1086, 1076, 1087, 1080, 1089, 1080]"

definition k_PublicKey :: pystr where
  "k_PublicKey = [1054, 1090, 1082, 1088, 1099, 1090, 1099, 1081, 1050, 1083, 1102, 1095]"

definition k_SignedBy :: pystr where
  "k_SignedBy =
     [1059, 1089, 1090, 1072, 1085, 1086, 1074, 1080, 1074,
      1096, 1080, 1081, 1055, 1086, 1076, 1087, 1080, 1089, 1100]"

definition k_SignDate :: pystr where
  "k_SignDate = [1044, 1072, 1090, 1072, 1055, 1086, 1076, 1087, 1080, 1089, 1080]"

definition k_StartDate :: pystr where
  "k_StartDate = [1044, 1072, 1090, 1072, 1053, 1072, 1095, 1072, 1083, 1072]"

definition k_EndDate :: pystr where
  "k_EndDate = [1044, 1072, 1090, 1072, 1054, 1082, 1086, 1085, 1095, 1072, 1085, 1080, 1103]"

definition k_IssuedBy :: pystr where
  "k_IssuedBy = [1050, 1077, 1084, 1042, 1099, 1076, 1072, 1085]"

definition k_IssuedTo :: pystr where
  "k_IssuedTo = [1050, 1086, 1084, 1091, 1042, 1099, 1076, 1072, 1085]"

definition k_FilesData :: pystr where
  "k_FilesData = [1044, 1072, 1085, 1085, 1099, 1077, 1060, 1072, 1081, 1083, 1086, 1074]"

definition k_AttachedFile :: pystr where
  "k_AttachedFile =
     [1055, 1088, 1080, 1082, 1088, 1077, 1087, 1083,
      1105, 1085, 1085, 1099, 1081, 1060, 1072, 1081, 1083]"

definition k_AttachedBy :: pystr where
  "k_AttachedBy =
     [1055, 1088, 1080, 1082, 1088, 1077, 1087, 1080,
      1074, 1096, 1080, 1081, 1060, 1072, 1081, 1083]"

definition k_ApprovalData :: pystr where
  "k_ApprovalData =
     [1044, 1072, 1085, 1085, 1099, 1077, 1042, 1080, 1079, 1057,
      1086, 1075, 1083, 1072, 1089, 1086, 1074, 1072, 1085, 1080, 1103]"

definition k_Position :: pystr where
  "k_Position = [1044, 1086, 1083, 1078, 1085, 1086, 1089, 1090, 1100]"

definition k_Executor :: pystr where
  "k_Executor = [1048, 1089, 1087, 1086, 1083, 1085, 1080, 1090, 1077, 1083, 1100]"

definition k_ExecutionDate :: pystr where
  "k_ExecutionDate =
     [1044, 1072, 1090, 1072, 1048, 1089, 1087,
      1086, 1083, 1085, 1077, 1085, 1080, 1103]"

definition k_ApprovalResult :: pystr where
  "k_ApprovalResult =
     [1056, 1077, 1079, 1091, 1083, 1100, 1090, 1072, 1090, 1057,
      1086, 1075, 1083, 1072, 1089, 1086, 1074, 1072, 1085, 1080, 1103]"

definition k_ExecutionResult :: pystr where
  "k_ExecutionResult =
     [1056, 1077, 1079, 1091, 1083, 1100, 1090, 1072, 1090,
      1042, 1099, 1087, 1086, 1083, 1085, 1077, 1085, 1080, 1103]"

definition k_QRData :: pystr where
  "k_QRData = [1044, 1072, 1085, 1085, 1099, 1077, 81, 82]"

definition k_QRBinary :: pystr where
  "k_QRBinary =
     [1044, 1074, 1086, 1080, 1095, 1085, 1099, 1077, 1044, 1072,
      1085, 1085, 1099, 1077, 81, 82, 1050, 1086, 1076, 1072]"

definition k_OriginalLink :: pystr where
  "k_OriginalLink =
     [1054, 1088, 1080, 1075, 1080, 1085, 1072,
      1083, 1057, 1089, 1099, 1083, 1082, 1080]"

text \<open>
  Operations on a value whose type is only known at run time: \<open>obj[key]\<close> with a string
  key raises \<open>TypeError\<close> on anything but a dictionary; \<open>obj.get\<close> and \<open>obj.items()\<close>
  raise \<open>AttributeError\<close> on anything but a dictionary; iteration yields the elements of a
  list, the keys of a dictionary and the characters of a string, and raises
  \<open>TypeError\<close> otherwise.
\<close>

definition obj_getitem :: "pyobj \<Rightarrow> pystr \<Rightarrow> py_exc + pyobj" where
  "obj_getitem obj k = (case obj of PDict d \<Rightarrow> dict_getitem d (KStr k) | _ \<Rightarrow> Inl TypeError)"

definition obj_get :: "pyobj \<Rightarrow> pystr \<Rightarrow> pyobj \<Rightarrow> py_exc + pyobj" where
  "obj_get obj k dflt =
     (case obj of PDict d \<Rightarrow> Inr (dict_get d (KStr k) dflt) | _ \<Rightarrow> Inl AttributeError)"

definition obj_items :: "pyobj \<Rightarrow> py_exc + (pykey \<times> pyobj) list" where
  "obj_items obj = (case obj of PDict d \<Rightarrow> Inr d | _ \<Rightarrow> Inl AttributeError)"

definition key_obj :: "pykey \<Rightarrow> pyobj" where
  "key_obj k = (case k of KStr s \<Rightarrow> PStr s | KInt i \<Rightarrow> PInt i)"

definition obj_iter :: "pyobj \<Rightarrow> py_exc + pyobj list" where
  "obj_iter obj =
     (case obj of
        PList xs \<Rightarrow> Inr xs
      | PDict d \<Rightarrow> Inr (map (key_obj \<circ> fst) d)
      | PStr s \<Rightarrow> Inr (map (\<lambda>c. PStr [c]) s)
      | _ \<Rightarrow> Inl TypeError)"

text \<open>
  A dictionary display \<open>{name: expr, ...}\<close> with distinct string names: the expressions
  are evaluated from left to right and the first exception aborts it.
\<close>

fun dict_literal :: "(pystr \<times> (py_exc + pyobj)) list \<Rightarrow> py_exc + (pykey \<times> pyobj) list" where
  "dict_literal [] = Inr []"
| "dict_literal ((name, r) # fs) =
     and_then r (\<lambda>v. and_then (dict_literal fs) (\<lambda>rest. Inr ((KStr name, v) # rest)))"

text \<open>\<open>request_data[section][field]\<close>, on the dictionary \<open>request_data\<close>.\<close>

definition section_field :: "(pykey \<times> pyobj) list \<Rightarrow> pystr \<Rightarrow> pystr \<Rightarrow> py_exc + pyobj" where
  "section_field request_data sec field =
     and_then (dict_getitem request_data (KStr sec)) (\<lambda>s. obj_getitem s field)"

section \<open>The response mapper\<close>

text \<open>Lines 163 to 172 of \<open>get_doc\<close>: the document metadata, always extracted.\<close>

definition document_data :: "(pykey \<times> pyobj) list \<Rightarrow> py_exc + (pykey \<times> pyobj) list" where
  "document_data request_data =
     dict_literal
       [(py ''document_name'', section_field request_data k_DocumentData k_Name),
        (py ''document_number'', section_field request_data k_DocumentData k_DocumentNumber),
        (py ''registration_date'', section_field request_data k_DocumentData k_RegistrationDate),
        (py ''registered_by'', section_field request_data k_DocumentData k_RegisteredBy),
        (py ''prepared_by'',
           and_then (dict_getitem request_data (KStr k_DocumentData))
             (\<lambda>s. obj_get s k_PreparedBy (PStr [])))]"

text \<open>Lines 173 to 184: the signature section, with \<open>open_key\<close> read first.\<close>

definition add_sign_data ::
  "(pykey \<times> pyobj) list \<Rightarrow> (pykey \<times> pyobj) list \<Rightarrow> py_exc + (pykey \<times> pyobj) list" where
  "add_sign_data request_data data =
     (if dict_contains request_data (KStr k_SignatureData) then
        and_then (section_field request_data k_SignatureData k_PublicKey) (\<lambda>open_key.
        and_then
          (dict_literal
             [(py ''signed_by'', section_field request_data k_SignatureData k_SignedBy),
              (py ''sign_date'', section_field request_data k_SignatureData k_SignDate),
              (py ''start_time'', section_field request_data k_SignatureData k_StartDate),
              (py ''end_time'', section_field request_data k_SignatureData k_EndDate),
              (py ''provider'', section_field request_data k_SignatureData k_IssuedBy),
              (py ''receiver'', section_field request_data k_SignatureData k_IssuedTo),
              (py ''open_key'', Inr open_key)])
          (\<lambda>sign_data. Inr (dict_setitem data (KStr (py ''sign_data'')) (PDict sign_data))))
      else Inr data)"

text \<open>
  Lines 185 to 194: the files section, entry by entry under the original keys;
  \<open>cor_file_data\<close> is the dictionary built for one file.
\<close>

definition cor_file_data :: "pyobj \<Rightarrow> py_exc + (pykey \<times> pyobj) list" where
  "cor_file_data file_data =
     dict_literal
       [(py ''name'', obj_getitem file_data k_AttachedFile),
        (py ''sign_date'', obj_getitem file_data k_SignDate),
        (py ''signed_by'', obj_getitem file_data k_SignedBy),
        (py ''attached_by'', obj_getitem file_data k_AttachedBy)]"

fun attached_files_loop ::
  "(pykey \<times> pyobj) list \<Rightarrow> (pykey \<times> pyobj) list \<Rightarrow> py_exc + (pykey \<times> pyobj) list" where
  "attached_files_loop acc [] = Inr acc"
| "attached_files_loop acc ((file, file_data) # rest) =
     and_then (cor_file_data file_data)
       (\<lambda>d. attached_files_loop (dict_setitem acc file (PDict d)) rest)"

definition add_attached_files ::
  "(pykey \<times> pyobj) list \<Rightarrow> (pykey \<times> pyobj) list \<Rightarrow> py_exc + (pykey \<times> pyobj) list" where
  "add_attached_files request_data data =
     (if dict_contains request_data (KStr k_FilesData) then
        and_then (dict_getitem request_data (KStr k_FilesData)) (\<lambda>sec.
        and_then (obj_items sec) (\<lambda>entries.
        and_then (attached_files_loop [] entries) (\<lambda>files.
        Inr (dict_setitem data (KStr (py ''attached_files'')) (PDict files)))))
      else Inr data)"

text \<open>
  Lines 195 to 204: the approval section, re-indexed by \<open>enumerate\<close> from 0;
  \<open>approvement_entry\<close> is the dictionary built for one entry.
\<close>

definition approvement_entry :: "pyobj \<Rightarrow> py_exc + (pykey \<times> pyobj) list" where
  "approvement_entry person =
     dict_literal
       [(py ''role'', obj_getitem person k_Position),
        (py ''name'', obj_getitem person k_Executor),
        (py ''sign_date'', obj_getitem person k_ExecutionDate),
        (py ''approvement_mark'', obj_getitem person k_ApprovalResult),
        (py ''comment'', obj_getitem person k_ExecutionResult)]"

fun approvement_loop ::
  "(pykey \<times> pyobj) list \<Rightarrow> int \<Rightarrow> pyobj list \<Rightarrow> py_exc + (pykey \<times> pyobj) list" where
  "approvement_loop acc index [] = Inr acc"
| "approvement_loop acc index (person # rest) =
     and_then (approvement_entry person)
       (\<lambda>entry. approvement_loop (dict_setitem acc (KInt index) (PDict entry)) (index + 1) rest)"

definition add_approvement_data ::
  "(pykey \<times> pyobj) list \<Rightarrow> (pykey \<times> pyobj) list \<Rightarrow> py_exc + (pykey \<times> pyobj) list" where
  "add_approvement_data request_data data =
     (if dict_contains request_data (KStr k_ApprovalData) then
        and_then (dict_getitem request_data (KStr k_ApprovalData)) (\<lambda>sec.
        and_then (obj_iter sec) (\<lambda>persons.
        and_then (approvement_loop [] 0 persons) (\<lambda>approvals.
        Inr (dict_setitem data (KStr (py ''approvement_data'')) (PDict approvals)))))
      else Inr data)"

text \<open>Lines 205 to 209: the QR section.\<close>

definition add_qr_data ::
  "(pykey \<times> pyobj) list \<Rightarrow> (pykey \<times> pyobj) list \<Rightarrow> py_exc + (pykey \<times> pyobj) list" where
  "add_qr_data request_data data =
     (if dict_contains request_data (KStr k_QRData) then
        and_then
          (dict_literal
             [(py ''qr_binary'', section_field request_data k_QRData k_QRBinary),
              (py ''qr_link'', section_field request_data k_QRData k_OriginalLink)])
          (\<lambda>qr. Inr (dict_setitem data (KStr (py ''qr_data'')) (PDict qr)))
      else Inr data)"

text \<open>
  Lines 159 and 160:
  \<^verbatim>\<open>
  for key, value in request_data.items():
      print(key, value)
  \<close>
  \<open>print\<close> writes to the standard output of the process, which is not in the source.
  What it does with one item is a parameter: \<open>None\<close> when it returns, \<open>Some e\<close> when it
  raises \<open>e\<close> (with a strict UTF-8 stream, \<open>UnicodeEncodeError\<close> for a key or a string value
  that holds a lone surrogate). The loop stops at the first exception.
\<close>

fun print_items ::
  "(pykey \<Rightarrow> pyobj \<Rightarrow> py_exc option) \<Rightarrow> (pykey \<times> pyobj) list \<Rightarrow> py_exc + unit" where
  "print_items print_item [] = Inr ()"
| "print_items print_item ((key, val) # rest) =
     (case print_item key val of
        Some e \<Rightarrow> Inl e
      | None \<Rightarrow> print_items print_item rest)"

text \<open>
  Lines 159 to 209 together: from the parsed payload to the dictionary \<open>data\<close> handed to
  the template. Line 159 calls \<open>request_data.items()\<close>, so a payload that is not a JSON
  object raises there.
\<close>

definition build_data ::
  "(pykey \<Rightarrow> pyobj \<Rightarrow> py_exc option) \<Rightarrow> pyobj \<Rightarrow> py_exc + (pykey \<times> pyobj) list" where
  "build_data print_item payload =
     and_then (obj_items payload) (\<lambda>request_data.
     and_then (print_items print_item request_data) (\<lambda>_.
     and_then (document_data request_data) (\<lambda>doc.
     and_then (add_sign_data request_data (dict_setitem [] (KStr (py ''document_data'')) (PDict doc)))
       (\<lambda>data.
     and_then (add_attached_files request_data data) (\<lambda>data.
     and_then (add_approvement_data request_data data) (\<lambda>data.
     add_qr_data request_data data))))))"

section \<open>The request handler\<close>

text \<open>
  \<open>CustomError(status_code, message, lang, error_code)\<close>, in this order. A failure of
  \<open>get_doc\<close> is either this exception, which \<open>handle_custom_error\<close> renders, or any
  other exception, which nothing in the source catches.
\<close>

datatype custom_error = CustomError int pystr pystr int

datatype failure = Raised custom_error | Unhandled py_exc

definition unhandled :: "py_exc + 'a \<Rightarrow> failure + 'a" where
  "unhandled r = (case r of Inl e \<Rightarrow> Inl (Unhandled e) | Inr x \<Rightarrow> Inr x)"

text \<open>
  What the outbound \<open>GET\<close> can do: raise \<open>requests.ConnectionError\<close> (the only exception
  the source catches), raise another exception of the library, or return a response with
  a status code and a body, whose \<open>json()\<close> is a value or raises.
\<close>

datatype req_exc = ConnectionError | OtherRequestException

datatype out_result = Failed req_exc | Returned int "pyobj option"

text \<open>\<open>not v\<close> for a query argument: true for \<open>None\<close> and for the empty string.\<close>

definition is_falsy :: "pystr option \<Rightarrow> bool" where
  "is_falsy v = (case v of None \<Rightarrow> True | Some s \<Rightarrow> s = [])"

text \<open>\<open>quote\<close> on a query argument; \<open>quote(None)\<close> raises \<open>TypeError\<close>.\<close>

definition quote_arg :: "pystr option \<Rightarrow> py_exc + pystr" where
  "quote_arg v = (case v of None \<Rightarrow> Inl TypeError | Some s \<Rightarrow> quote s)"

text \<open>
  The three places that raise \<open>CustomError\<close> (lines 139 to 141, 150 to 152 and 154 to
  156) have the same shape:
  \<^verbatim>\<open>
  message = get_error_messages(status_code, preferred_language)
  raise CustomError(status_code, message, preferred_language, status_code)
  \<close>
\<close>

definition raise_custom_error :: "int \<Rightarrow> pystr \<Rightarrow> failure + 'a" where
  "raise_custom_error code language =
     (case get_error_messages code language of
        Inl e \<Rightarrow> Inl (Unhandled e)
      | Inr msg \<Rightarrow> Inl (Raised (CustomError code msg language code)))"

text \<open>\<^verbatim>\<open>f'{req_base_url}?type={cor_doc_type}&ref={cor_ref_type}'\<close>\<close>

definition full_req_url :: "pystr \<Rightarrow> pystr \<Rightarrow> pystr \<Rightarrow> pystr" where
  "full_req_url req_base_url cor_doc_type cor_ref_type =
     req_base_url @ py ''?type='' @ cor_doc_type @ py ''&ref='' @ cor_ref_type"

text \<open>
  Lines 134 to 144: everything before the outbound call. The result is the preferred
  language and the URL to request, or the failure raised before any request is made.
\<close>

definition get_doc_url :: "pystr \<Rightarrow> request \<Rightarrow> failure + (pystr \<times> pystr)" where
  "get_doc_url req_base_url inc_req =
     (let doc_type = args inc_req (py ''type'');
          ref_type = args inc_req (py ''ref'')
      in and_then (unhandled (preferred_language inc_req)) (\<lambda>language.
           if is_falsy doc_type \<or> is_falsy ref_type then raise_custom_error 400 language
           else
             and_then (unhandled (quote_arg doc_type)) (\<lambda>cor_doc_type.
             and_then (unhandled (quote_arg ref_type)) (\<lambda>cor_ref_type.
             Inr (language, full_req_url req_base_url cor_doc_type cor_ref_type)))))"

text \<open>
  Lines 146 to 210: what the handler does with the outcome of the outbound call. On
  success it returns \<open>data\<close> for the template and the status code 200.
\<close>

definition get_doc_response ::
  "pystr \<Rightarrow> (pykey \<Rightarrow> pyobj \<Rightarrow> py_exc option) \<Rightarrow> out_result
     \<Rightarrow> failure + ((pykey \<times> pyobj) list \<times> int)" where
  "get_doc_response language print_item res =
     (case res of
        Failed ConnectionError \<Rightarrow> raise_custom_error 500 language
      | Failed OtherRequestException \<Rightarrow> Inl (Unhandled RequestException)
      | Returned status body \<Rightarrow>
          if 200 \<noteq> status then raise_custom_error status language
          else
            and_then
              (unhandled (case body of None \<Rightarrow> Inl JSONDecodeError | Some v \<Rightarrow> Inr v))
              (\<lambda>request_data.
            and_then (unhandled (build_data print_item request_data)) (\<lambda>data. Inr (data, 200))))"

text \<open>
  \<open>get_doc\<close> for a base URL, a request, the behaviour \<open>out_req\<close> of the upstream at each
  URL and the behaviour \<open>print_item\<close> of \<open>print\<close>. The second component is the list of URLs
  that were requested.
\<close>

definition get_doc ::
  "pystr \<Rightarrow> (pystr \<Rightarrow> out_result) \<Rightarrow> (pykey \<Rightarrow> pyobj \<Rightarrow> py_exc option) \<Rightarrow> request
     \<Rightarrow> (failure + ((pykey \<times> pyobj) list \<times> int)) \<times> pystr list" where
  "get_doc req_base_url out_req print_item inc_req =
     (case get_doc_url req_base_url inc_req of
        Inl f \<Rightarrow> (Inl f, [])
      | Inr (language, url) \<Rightarrow> (get_doc_response language print_item (out_req url), [url]))"

text \<open>
  \<open>handle_custom_error\<close>: the arguments given to the error template (message, language,
  error code) and the HTTP status of the response.
\<close>

definition handle_custom_error :: "custom_error \<Rightarrow> (pystr \<times> pystr \<times> int) \<times> int" where
  "handle_custom_error err =
     (case err of CustomError status msg language code \<Rightarrow> ((msg, language, code), status))"

section \<open>Notions of the specification\<close>

text \<open>
  The first comma-separated segment of a header value, as the specification words it: the
  characters before the first comma, or the whole value when it has no comma.
\<close>

definition first_segment :: "pystr \<Rightarrow> pystr" where
  "first_segment h = takeWhile (\<lambda>c. c \<noteq> of_char CHR '','') h"

text \<open>The locale of a request, as the specification resolves it.\<close>

definition resolved_locale :: "request \<Rightarrow> pystr" where
  "resolved_locale inc_req =
     (case headers inc_req (py ''Accept-Language'') of
        None \<Rightarrow> py ''en''
      | Some h \<Rightarrow> take 2 (first_segment h))"

text \<open>
  A Unicode scalar value: a code point that is not a surrogate. These are the code points
  of a string that was decoded from well-formed text.
\<close>

definition is_scalar_value :: "nat \<Rightarrow> bool" where
  "is_scalar_value c = (c < 0x110000 \<and> \<not> (0xD800 \<le> c \<and> c \<le> 0xDFFF))"

text \<open>
  The percent-encoding of a byte sequence, as the specification describes it for a query
  value: a byte that is an ASCII letter, a digit or one of \<open>_\<close>, \<open>.\<close>, \<open>-\<close>, \<open>~\<close>, \<open>/\<close> is
  kept, and any other byte is written as \<open>%\<close> and its two upper-case hexadecimal digits.
\<close>

definition is_kept :: "nat \<Rightarrow> bool" where
  "is_kept b =
     ((of_char CHR ''A'' \<le> b \<and> b \<le> of_char CHR ''Z'') \<or>
      (of_char CHR ''a'' \<le> b \<and> b \<le> of_char CHR ''z'') \<or>
      (of_char CHR ''0'' \<le> b \<and> b \<le> of_char CHR ''9'') \<or>
      b = of_char CHR ''_'' \<or> b = of_char CHR ''.'' \<or> b = of_char CHR ''-'' \<or>
      b = of_char CHR ''~'' \<or> b = of_char CHR ''/'')"

definition percent_triplet :: "nat \<Rightarrow> pystr" where
  "percent_triplet b =
     [of_char CHR ''%'', py ''0123456789ABCDEF'' ! (b div 16), py ''0123456789ABCDEF'' ! (b mod 16)]"

definition percent_encoding :: "bytes \<Rightarrow> pystr" where
  "percent_encoding bs = concat (map (\<lambda>b. if is_kept b then [b] else percent_triplet b) bs)"

text \<open>A value that is a dictionary holding every one of the given keys.\<close>

definition has_fields :: "pyobj \<Rightarrow> pystr list \<Rightarrow> bool" where
  "has_fields obj ks =
     (case obj of PDict d \<Rightarrow> list_all (\<lambda>k. dict_contains d (KStr k)) ks | _ \<Rightarrow> False)"

text \<open>
  The key that a section contributes to the presentation model: its name when the
  section is present, nothing otherwise.
\<close>

definition section_key :: "bool \<Rightarrow> pystr \<Rightarrow> pykey set" where
  "section_key present name = (if present then {KStr name} else {})"

text \<open>
  A list of entries under the keys \<open>i\<close>, \<open>i + 1\<close>, ... in the order of the list: with
  \<open>i = 0\<close>, the re-indexing that the specification describes for the approval section.
\<close>

fun reindexed :: "int \<Rightarrow> (pykey \<times> pyobj) list list \<Rightarrow> (pykey \<times> pyobj) list" where
  "reindexed i [] = []"
| "reindexed i (e # es) = (KInt i, PDict e) # reindexed (i + 1) es"

text \<open>
  A payload that the mapper can process: the document section holds its four required
  fields, and every other section is absent or holds each field that is read from it;
  the files section is a dictionary and the approval section a list.
\<close>

definition section_ok :: "(pykey \<times> pyobj) list \<Rightarrow> pystr \<Rightarrow> (pyobj \<Rightarrow> bool) \<Rightarrow> bool" where
  "section_ok rd sec P = (case map_of rd (KStr sec) of None \<Rightarrow> True | Some s \<Rightarrow> P s)"

definition well_formed :: "(pykey \<times> pyobj) list \<Rightarrow> bool" where
  "well_formed rd =
     ((case map_of rd (KStr k_DocumentData) of
         None \<Rightarrow> False
       | Some s \<Rightarrow> has_fields s [k_Name, k_DocumentNumber, k_RegistrationDate, k_RegisteredBy]) \<and>
      section_ok rd k_SignatureData
        (\<lambda>s. has_fields s [k_PublicKey, k_SignedBy, k_SignDate, k_StartDate, k_EndDate,
                            k_IssuedBy, k_IssuedTo]) \<and>
      section_ok rd k_FilesData
        (\<lambda>fs. case fs of
                 PDict entries \<Rightarrow>
                   list_all (\<lambda>(fname, file_data).
                     has_fields file_data [k_AttachedFile, k_SignDate, k_SignedBy, k_AttachedBy])
                     entries
               | _ \<Rightarrow> False) \<and>
      section_ok rd k_ApprovalData
        (\<lambda>a. case a of
                PList persons \<Rightarrow>
                  list_all (\<lambda>person. has_fields person
                    [k_Position, k_Executor, k_ExecutionDate, k_ApprovalResult,
                     k_ExecutionResult]) persons
              | _ \<Rightarrow> False) \<and>
      section_ok rd k_QRData (\<lambda>s. has_fields s [k_QRBinary, k_OriginalLink]))"

section \<open>Example payloads\<close>

text \<open>
  A payload with the document metadata (no preparer), one attached file and two approval
  entries, and the dictionary that \<open>get_doc\<close> builds from it; then a payload that holds
  the document metadata only, with a preparer.
\<close>

definition example_request_data :: "(pykey \<times> pyobj) list" where
  "example_request_data =
     [(KStr k_DocumentData,
       PDict [(KStr k_Name, PStr (py ''Act'')),
              (KStr k_DocumentNumber, PInt 42),
              (KStr k_RegistrationDate, PStr (py ''2024-01-31'')),
              (KStr k_RegisteredBy, PStr (py ''Ann''))]),
      (KStr k_FilesData,
       PDict [(KStr (py ''f1''),
               PDict [(KStr k_AttachedFile, PStr (py ''a.pdf'')),
                      (KStr k_SignDate, PNone),
                      (KStr k_SignedBy, PStr (py ''Bob'')),
                      (KStr k_AttachedBy, PStr (py ''Eve''))])]),
      (KStr k_ApprovalData,
       PList [PDict [(KStr k_Position, PStr (py ''Head'')),
                     (KStr k_Executor, PStr (py ''Kim'')),
                     (KStr k_ExecutionDate, PStr (py ''2024-02-01'')),
                     (KStr k_ApprovalResult, PBool True),
                     (KStr k_ExecutionResult, PStr (py ''ok''))],
              PDict [(KStr k_Position, PStr (py ''Lawyer'')),
                     (KStr k_Executor, PStr (py ''Lee'')),
                     (KStr k_ExecutionDate, PStr (py ''2024-02-02'')),
                     (KStr k_ApprovalResult, PBool False),
                     (KStr k_ExecutionResult, PStr (py ''no''))]])]"

definition example_data :: "(pykey \<times> pyobj) list" where
  "example_data =
     [(KStr (py ''document_data''),
       PDict [(KStr (py ''document_name''), PStr (py ''Act'')),
              (KStr (py ''document_number''), PInt 42),
              (KStr (py ''registration_date''), PStr (py ''2024-01-31'')),
              (KStr (py ''registered_by''), PStr (py ''Ann'')),
              (KStr (py ''prepared_by''), PStr [])]),
      (KStr (py ''attached_files''),
       PDict [(KStr (py ''f1''),
               PDict [(KStr (py ''name''), PStr (py ''a.pdf'')),
                      (KStr (py ''sign_date''), PNone),
                      (KStr (py ''signed_by''), PStr (py ''Bob'')),
                      (KStr (py ''attached_by''), PStr (py ''Eve''))])]),
      (KStr (py ''approvement_data''),
       PDict [(KInt 0,
               PDict [(KStr (py ''role''), PStr (py ''Head'')),
                      (KStr (py ''name''), PStr (py ''Kim'')),
                      (KStr (py ''sign_date''), PStr (py ''2024-02-01'')),
                      (KStr (py ''approvement_mark''), PBool True),
                      (KStr (py ''comment''), PStr (py ''ok''))]),
              (KInt 1,
               PDict [(KStr (py ''role''), PStr (py ''Lawyer'')),
                      (KStr (py ''name''), PStr (py ''Lee'')),
                      (KStr (py ''sign_date''), PStr (py ''2024-02-02'')),
                      (KStr (py ''approvement_mark''), PBool False),
                      (KStr (py ''comment''), PStr (py ''no''))])])]"

definition document_only_request_data :: "(pykey \<times> pyobj) list" where
  "document_only_request_data =
     [(KStr k_DocumentData,
       PDict [(KStr k_Name, PStr (py ''Act'')),
              (KStr k_DocumentNumber, PInt 42),
              (KStr k_RegistrationDate, PStr (py ''2024-01-31'')),
              (KStr k_RegisteredBy, PStr (py ''Ann'')),
              (KStr k_PreparedBy, PStr (py ''Joe''))])]"

definition document_only_data :: "(pykey \<times> pyobj) list" where
  "document_only_data =
     [(KStr (py ''document_data''),
       PDict [(KStr (py ''document_name''), PStr (py ''Act'')),
              (KStr (py ''document_number''), PInt 42),
              (KStr (py ''registration_date''), PStr (py ''2024-01-31'')),
              (KStr (py ''registered_by''), PStr (py ''Ann'')),
              (KStr (py ''prepared_by''), PStr (py ''Joe''))])]"

text \<open>A payload with all five sections, and the dictionary built from it.\<close>

definition full_request_data :: "(pykey \<times> pyobj) list" where
  "full_request_data =
     [(KStr k_DocumentData,
       PDict [(KStr k_Name, PStr (py ''Act'')),
              (KStr k_DocumentNumber, PInt 42),
              (KStr k_RegistrationDate, PStr (py ''2024-01-31'')),
              (KStr k_RegisteredBy, PStr (py ''Ann''))]),
      (KStr k_SignatureData,
       PDict [(KStr k_SignedBy, PStr (py ''Bob'')),
              (KStr k_SignDate, PStr (py ''2024-02-03'')),
              (KStr k_StartDate, PStr (py ''2024-01-01'')),
              (KStr k_EndDate, PStr (py ''2025-01-01'')),
              (KStr k_IssuedBy, PStr (py ''CA'')),
              (KStr k_IssuedTo, PStr (py ''Bob'')),
              (KStr k_PublicKey, PStr (py ''0A1B''))]),
      (KStr k_FilesData,
       PDict [(KStr (py ''f1''),
               PDict [(KStr k_AttachedFile, PStr (py ''a.pdf'')),
                      (KStr k_SignDate, PNone),
                      (KStr k_SignedBy, PStr (py ''Bob'')),
                      (KStr k_AttachedBy, PStr (py ''Eve''))])]),
      (KStr k_ApprovalData,
       PList [PDict [(KStr k_Position, PStr (py ''Head'')),
                     (KStr k_Executor, PStr (py ''Kim'')),
                     (KStr k_ExecutionDate, PStr (py ''2024-02-01'')),
                     (KStr k_ApprovalResult, PBool True),
                     (KStr k_ExecutionResult, PStr (py ''ok''))]]),
      (KStr k_QRData,
       PDict [(KStr k_QRBinary, PStr (py ''iVBOR'')),
              (KStr k_OriginalLink, PStr (py ''http://d/1''))])]"

definition full_data :: "(pykey \<times> pyobj) list" where
  "full_data =
     [(KStr (py ''document_data''),
       PDict [(KStr (py ''document_name''), PStr (py ''Act'')),
              (KStr (py ''document_number''), PInt 42),
              (KStr (py ''registration_date''), PStr (py ''2024-01-31'')),
              (KStr (py ''registered_by''), PStr (py ''Ann'')),
              (KStr (py ''prepared_by''), PStr [])]),
      (KStr (py ''sign_data''),
       PDict [(KStr (py ''signed_by''), PStr (py ''Bob'')),
              (KStr (py ''sign_date''), PStr (py ''2024-02-03'')),
              (KStr (py ''start_time''), PStr (py ''2024-01-01'')),
              (KStr (py ''end_time''), PStr (py ''2025-01-01'')),
              (KStr (py ''provider''), PStr (py ''CA'')),
              (KStr (py ''receiver''), PStr (py ''Bob'')),
              (KStr (py ''open_key''), PStr (py ''0A1B''))]),
      (KStr (py ''attached_files''),
       PDict [(KStr (py ''f1''),
               PDict [(KStr (py ''name''), PStr (py ''a.pdf'')),
                      (KStr (py ''sign_date''), PNone),
                      (KStr (py ''signed_by''), PStr (py ''Bob'')),
                      (KStr (py ''attached_by''), PStr (py ''Eve''))])]),
      (KStr (py ''approvement_data''),
       PDict [(KInt 0,
               PDict [(KStr (py ''role''), PStr (py ''Head'')),
                      (KStr (py ''name''), PStr (py ''Kim'')),
                      (KStr (py ''sign_date''), PStr (py ''2024-02-01'')),
                      (KStr (py ''approvement_mark''), PBool True),
                      (KStr (py ''comment''), PStr (py ''ok''))])]),
      (KStr (py ''qr_data''),
       PDict [(KStr (py ''qr_binary''), PStr (py ''iVBOR'')),
              (KStr (py ''qr_link''), PStr (py ''http://d/1''))])]"

section \<open>Properties of the message lookup\<close>

lemma and_then_Inr [simp]: "and_then (Inr x) f = f x"
  by (simp add: and_then_def)

lemma and_then_Inl [simp]: "and_then (Inl e) f = Inl e"
  by (simp add: and_then_def)

lemma messages_contains:
  "dict_contains messages c \<longleftrightarrow> c = 400 \<or> c = 404 \<or> c = 409 \<or> c = 500"
  by (simp add: dict_contains_def messages_def)

lemma messages_500: "\<exists>entry. dict_getitem messages 500 = Inr entry"
  by (simp add: dict_getitem_def messages_def)

lemma dict_getitem_contains:
  "dict_contains d k \<Longrightarrow> \<exists>v. dict_getitem d k = Inr v"
  by (auto simp: dict_contains_def dict_getitem_def)

lemma messages_entry:
  "\<exists>entry. dict_getitem messages (if dict_contains messages c then c else 500) = Inr entry"
proof (cases "dict_contains messages c")
  case True
  from dict_getitem_contains [OF True] True show ?thesis by simp
next
  case False
  with messages_500 show ?thesis by simp
qed

lemma get_error_messages_returns: "\<exists>s. get_error_messages c l = Inr s"
proof -
  from messages_entry [of c]
  obtain entry where
    "dict_getitem messages (if dict_contains messages c then c else 500) = Inr entry" ..
  then show ?thesis
    by (cases "dict_contains messages c") (simp_all add: get_error_messages_def)
qed

text \<open>
  Claim C10. The error-message lookup is total: for every integer error code and every
  locale string it returns a string and raises nothing. A code outside the table is
  looked up under 500, which the table has, so that the subscript finds an entry, and the
  lookup of the locale in that entry is a \<open>get\<close> with a default.
\<close>

theorem get_error_messages_total:
  "\<exists>entry.
     dict_getitem messages (if dict_contains messages error_code then error_code else 500)
       = Inr entry \<and>
     get_error_messages error_code l = Inr (dict_get entry l (py ''en''))"
proof -
  from messages_entry [of error_code]
  obtain entry where
    "dict_getitem messages (if dict_contains messages error_code then error_code else 500)
       = Inr entry" ..
  then show ?thesis
    by (cases "dict_contains messages error_code") (simp_all add: get_error_messages_def)
qed

lemma get_error_messages_unknown_code:
  "c \<notin> {400, 404, 409, 500} \<Longrightarrow> get_error_messages c l = get_error_messages 500 l"
  by (simp add: get_error_messages_def messages_contains)

lemma get_error_messages_en:
  "get_error_messages 400 (py ''en'') = Inr msg_400_en"
  "get_error_messages 404 (py ''en'') = Inr msg_404_en"
  "get_error_messages 409 (py ''en'') = Inr msg_409_en"
  "get_error_messages 500 (py ''en'') = Inr msg_500_en"
  by (simp_all add: get_error_messages_def messages_def dict_contains_def dict_getitem_def dict_get_def)

lemma py_ru_neq_en: "py ''ru'' \<noteq> py ''en''"
  by (simp add: py_def)

lemma get_error_messages_ru:
  "get_error_messages 400 (py ''ru'') = Inr msg_400_ru"
  "get_error_messages 404 (py ''ru'') = Inr msg_404_ru"
  "get_error_messages 409 (py ''ru'') = Inr msg_409_ru"
  "get_error_messages 500 (py ''ru'') = Inr msg_500_ru"
  using py_ru_neq_en
  by (simp_all add: get_error_messages_def messages_def dict_contains_def dict_getitem_def dict_get_def)

lemma get_error_messages_absent_locale:
  assumes "c = 400 \<or> c = 404 \<or> c = 409 \<or> c = 500" "l \<noteq> py ''en''" "l \<noteq> py ''ru''"
  shows "get_error_messages c l = Inr (py ''en'')"
proof -
  have "dict_contains messages c" using assms(1) by (simp add: messages_contains)
  moreover have "\<exists>e. dict_getitem messages c = Inr e \<and> dict_get e l (py ''en'') = py ''en''"
    using assms(1)
  proof (elim disjE)
    assume "c = 400" then show ?thesis using assms(2,3) by (simp add: messages_def dict_getitem_def dict_get_def)
  next
    assume "c = 404" then show ?thesis using assms(2,3) by (simp add: messages_def dict_getitem_def dict_get_def)
  next
    assume "c = 409" then show ?thesis using assms(2,3) by (simp add: messages_def dict_getitem_def dict_get_def)
  next
    assume "c = 500" then show ?thesis using assms(2,3) by (simp add: messages_def dict_getitem_def dict_get_def)
  qed
  ultimately show ?thesis by (auto simp: get_error_messages_def)
qed

lemma en_is_no_message:
  "py ''en'' \<noteq> msg_400_en" "py ''en'' \<noteq> msg_404_en" "py ''en'' \<noteq> msg_409_en" "py ''en'' \<noteq> msg_500_en"
  "py ''en'' \<noteq> msg_400_ru" "py ''en'' \<noteq> msg_404_ru" "py ''en'' \<noteq> msg_409_ru" "py ''en'' \<noteq> msg_500_ru"
  by (simp_all add: py_def msg_400_en_def msg_404_en_def msg_409_en_def msg_500_en_def
       msg_400_ru_def msg_404_ru_def msg_409_ru_def msg_500_ru_def)

text \<open>
  Claim C1, which says that a locale absent from a code's entry gets the English text of
  that code. The lookup returns the default of \<open>get\<close> instead, which is the two-letter
  string \<open>'en'\<close>: for code 404 and the locale \<open>fr\<close> the result is \<open>'en'\<close>, while the English
  text, which the locale \<open>en\<close> gets, is \<open>'Document not found'\<close>.
\<close>

theorem get_error_messages_fr_is_not_english_text:
  "get_error_messages 404 (py ''fr'') = Inr (py ''en'') \<and>
   get_error_messages 404 (py ''en'') = Inr (py ''Document not found'') \<and>
   py ''en'' \<noteq> py ''Document not found''"
  by (simp add: get_error_messages_def messages_def dict_contains_def dict_getitem_def
        dict_get_def py_def msg_404_en_def)

section \<open>Properties of the locale resolution\<close>

lemma split_acc_shape:
  "\<exists>rest. split_acc sep cur s = (rev cur @ takeWhile (\<lambda>c. c \<noteq> sep) s) # rest"
proof (induction s arbitrary: cur)
  case Nil
  show ?case by simp
next
  case (Cons a s)
  show ?case
  proof (cases "a = sep")
    case True
    then show ?thesis by simp
  next
    case False
    from Cons.IH [of "a # cur"] False show ?thesis by simp
  qed
qed

lemma str_split_first:
  "list_first (str_split s sep) = Inr (takeWhile (\<lambda>c. c \<noteq> sep) s)"
proof -
  from split_acc_shape [of sep "[]" s]
  obtain rest where "split_acc sep [] s = takeWhile (\<lambda>c. c \<noteq> sep) s # rest"
    by auto
  then show ?thesis
    by (simp add: list_first_def str_split_def)
qed

text \<open>
  Claim C9. The locale of a request is the first two characters of the first
  comma-separated segment of its \<open>Accept-Language\<close> header, and \<open>en\<close> when the header is
  absent; the header \<open>ru-RU,en;q=0.9\<close> resolves to \<open>ru\<close>. The resolution raises nothing.
\<close>

theorem preferred_language_resolution:
  "preferred_language inc_req =
     Inr (case headers inc_req (py ''Accept-Language'') of
            None \<Rightarrow> py ''en''
          | Some h \<Rightarrow> take 2 (first_segment h)) \<and>
   preferred_language
     \<lparr>args = a, headers = [py ''Accept-Language'' \<mapsto> py ''ru-RU,en;q=0.9'']\<rparr> = Inr (py ''ru'')"
  by (simp add: preferred_language_def get_user_language_def str_split_first first_segment_def
        py_def split: option.splits)

section \<open>Properties of the percent-encoding\<close>

lemma decoded_True [simp]: "decoded True c r = map_option ((#) c) r"
  by (simp add: decoded_def)

lemma utf8_decode_2:
  assumes "0x80 \<le> c" "c < 0x800"
  shows "utf8_decode ([0xC0 + c div 0x40, 0x80 + c mod 0x40] @ rest)
         = map_option ((#) c) (utf8_decode rest)"
proof -
  define b0 where "b0 = 0xC0 + c div 0x40"
  define b1 where "b1 = 0x80 + c mod 0x40"
  have "c div 0x40 < 0x20" using assms(2) by (simp add: div_less_iff_less_mult)
  then have lead: "0xC0 \<le> b0" "b0 < 0xE0" "\<not> b0 < 0x80"
    by (simp_all add: b0_def)
  have "c mod 0x40 < 0x40" by simp
  then have cont: "is_cont b1"
    unfolding is_cont_def b1_def by linarith
  have val: "code2 b0 b1 = c"
    by (simp add: code2_def b0_def b1_def)
  have "utf8_decode ([b0, b1] @ rest) = map_option ((#) c) (utf8_decode rest)"
    using lead cont val assms(1) by (simp add: decoded_def)
  then show ?thesis by (simp only: b0_def b1_def)
qed

lemma base64_split:
  fixes c :: nat
  shows "c div 0x40 * 0x40 + c mod 0x40 = c"
  by simp

lemma utf8_decode_3:
  assumes "0x800 \<le> c" "c < 0x10000" "\<not> (0xD800 \<le> c \<and> c \<le> 0xDFFF)"
  shows "utf8_decode ([0xE0 + c div 0x1000, 0x80 + c div 0x40 mod 0x40, 0x80 + c mod 0x40] @ rest)
         = map_option ((#) c) (utf8_decode rest)"
proof -
  define b0 where "b0 = 0xE0 + c div 0x1000"
  define b1 where "b1 = 0x80 + c div 0x40 mod 0x40"
  define b2 where "b2 = 0x80 + c mod 0x40"
  define q where "q = c div 0x40"
  have "c div 0x1000 < 0x10" using assms(2) by (simp add: div_less_iff_less_mult)
  then have lead: "0xE0 \<le> b0" "b0 < 0xF0" "\<not> b0 < 0x80" "\<not> (0xC0 \<le> b0 \<and> b0 < 0xE0)"
    by (simp_all add: b0_def)
  have "q mod 0x40 < 0x40" "c mod 0x40 < 0x40" by simp_all
  then have cont: "is_cont b1" "is_cont b2"
    unfolding is_cont_def b1_def b2_def q_def by linarith+
  have hi: "c div 0x1000 = q div 0x40"
    by (simp add: q_def div_mult2_eq)
  have "q div 0x40 * 0x40 + q mod 0x40 = q" "q * 0x40 + c mod 0x40 = c"
    unfolding q_def by (rule base64_split)+
  then have "q div 0x40 * 0x1000 + q mod 0x40 * 0x40 + c mod 0x40 = c"
    by linarith
  then have val: "code3 b0 b1 b2 = c"
    by (simp add: code3_def b0_def b1_def b2_def hi q_def)
  have "utf8_decode ([b0, b1, b2] @ rest) = map_option ((#) c) (utf8_decode rest)"
    using lead cont val assms by (simp add: decoded_def)
  then show ?thesis by (simp only: b0_def b1_def b2_def)
qed


lemma utf8_decode_4:
  assumes "0x10000 \<le> c" "c < 0x110000"
  shows "utf8_decode ([0xF0 + c div 0x40000, 0x80 + c div 0x1000 mod 0x40,
                       0x80 + c div 0x40 mod 0x40, 0x80 + c mod 0x40] @ rest)
         = map_option ((#) c) (utf8_decode rest)"
proof -
  define b0 where "b0 = 0xF0 + c div 0x40000"
  define b1 where "b1 = 0x80 + c div 0x1000 mod 0x40"
  define b2 where "b2 = 0x80 + c div 0x40 mod 0x40"
  define b3 where "b3 = 0x80 + c mod 0x40"
  define q where "q = c div 0x40"
  define p where "p = q div 0x40"
  have "c div 0x40000 < 8" using assms(2) by (simp add: div_less_iff_less_mult)
  then have lead: "0xF0 \<le> b0" "b0 < 0xF8" "\<not> b0 < 0x80" "\<not> (0xC0 \<le> b0 \<and> b0 < 0xE0)"
     "\<not> (0xE0 \<le> b0 \<and> b0 < 0xF0)"
    by (simp_all add: b0_def)
  have mid: "c div 0x1000 = p"
    by (simp add: p_def q_def div_mult2_eq)
  have hi: "c div 0x40000 = p div 0x40"
    by (simp add: p_def q_def div_mult2_eq)
  have "p mod 0x40 < 0x40" "q mod 0x40 < 0x40" "c mod 0x40 < 0x40" by simp_all
  then have cont: "is_cont b1" "is_cont b2" "is_cont b3"
    unfolding is_cont_def b1_def b2_def b3_def mid q_def [symmetric] by linarith+
  have "p div 0x40 * 0x40 + p mod 0x40 = p" "q div 0x40 * 0x40 + q mod 0x40 = q"
     "q * 0x40 + c mod 0x40 = c"
    unfolding q_def by (rule base64_split)+
  then have "p div 0x40 * 0x40000 + p mod 0x40 * 0x1000 + q mod 0x40 * 0x40 + c mod 0x40 = c"
    unfolding p_def [symmetric] by linarith
  then have val: "code4 b0 b1 b2 b3 = c"
    by (simp add: code4_def b0_def b1_def b2_def b3_def hi mid q_def [symmetric])
  have "utf8_decode ([b0, b1, b2, b3] @ rest) = map_option ((#) c) (utf8_decode rest)"
    using lead cont val assms by (simp add: decoded_def)
  then show ?thesis by (simp only: b0_def b1_def b2_def b3_def)
qed

lemma utf8_encode_char_decode:
  assumes "utf8_encode_char c = Inr bs"
  shows "utf8_decode (bs @ rest) = map_option ((#) c) (utf8_decode rest)"
proof -
  consider "c < 0x80" | "0x80 \<le> c" "c < 0x800"
    | "0x800 \<le> c" "c < 0x10000" "\<not> (0xD800 \<le> c \<and> c \<le> 0xDFFF)"
    | "0x10000 \<le> c" "c < 0x110000"
    using assms by (auto simp: utf8_encode_char_def split: if_splits)
  then show ?thesis
  proof cases
    case 1
    with assms show ?thesis by (auto simp: utf8_encode_char_def)
  next
    case 2
    with assms utf8_decode_2 [OF 2, of rest] show ?thesis
      by (auto simp: utf8_encode_char_def)
  next
    case 3
    with assms utf8_decode_3 [OF 3, of rest] show ?thesis
      by (auto simp: utf8_encode_char_def)
  next
    case 4
    with assms utf8_decode_4 [OF 4, of rest] show ?thesis
      by (auto simp: utf8_encode_char_def)
  qed
qed

lemma str_encode_decode: "str_encode s = Inr bs \<Longrightarrow> utf8_decode bs = Some s"
proof (induction s arbitrary: bs)
  case Nil
  then show ?case by simp
next
  case (Cons c s)
  from Cons.prems obtain b r where b: "utf8_encode_char c = Inr b"
    and r: "str_encode s = Inr r" and bs: "bs = b @ r"
    by (auto simp: and_then_def split: sum.splits)
  from Cons.IH [OF r] utf8_encode_char_decode [OF b, of r] bs show ?case by simp
qed


lemma utf8_encode_char_bytes:
  assumes "utf8_encode_char c = Inr bs"
  shows "\<forall>b\<in>set bs. b < 256"
proof -
  have m: "\<And>n::nat. 0x80 + n mod 0x40 < 256"
  proof -
    fix n :: nat
    have "n mod 0x40 < 0x40" by simp
    then show "0x80 + n mod 0x40 < 256" by linarith
  qed
  consider "c < 0x80" | "0x80 \<le> c" "c < 0x800"
    | "0x800 \<le> c" "c < 0x10000" "\<not> (0xD800 \<le> c \<and> c \<le> 0xDFFF)"
    | "0x10000 \<le> c" "c < 0x110000"
    using assms by (auto simp: utf8_encode_char_def split: if_splits)
  then show ?thesis
  proof cases
    case 1
    with assms show ?thesis by (auto simp: utf8_encode_char_def)
  next
    case 2
    then have "c div 0x40 < 0x20" by (simp add: div_less_iff_less_mult)
    then have "0xC0 + c div 0x40 < 256" by linarith
    with 2 assms m show ?thesis by (auto simp: utf8_encode_char_def)
  next
    case 3
    then have "c div 0x1000 < 0x10" by (simp add: div_less_iff_less_mult)
    then have "0xE0 + c div 0x1000 < 256" by linarith
    with 3 assms m show ?thesis by (auto simp: utf8_encode_char_def)
  next
    case 4
    then have "c div 0x40000 < 8" by (simp add: div_less_iff_less_mult)
    then have "0xF0 + c div 0x40000 < 256" by linarith
    with 4 assms m show ?thesis by (auto simp: utf8_encode_char_def)
  qed
qed

lemma str_encode_bytes: "str_encode s = Inr bs \<Longrightarrow> \<forall>b\<in>set bs. b < 256"
proof (induction s arbitrary: bs)
  case Nil
  then show ?case by simp
next
  case (Cons c s)
  from Cons.prems obtain b r where b: "utf8_encode_char c = Inr b"
    and r: "str_encode s = Inr r" and bs: "bs = b @ r"
    by (auto simp: and_then_def split: sum.splits)
  from Cons.IH [OF r] utf8_encode_char_bytes [OF b] bs show ?case by auto
qed

lemma hex_value_hex_digit: "n < 16 \<Longrightarrow> hex_value (hex_digit n) = Some n"
  by (auto simp: hex_value_def hex_digit_def)

lemma percent_is_unsafe: "of_char CHR ''%'' \<notin> set (always_safe @ py ''/'')"
  by (simp add: always_safe_def py_def)

lemma percent_decode_quote_byte:
  assumes "b < 256" "of_char CHR ''%'' \<notin> set safe"
  shows "percent_decode (quote_byte safe b @ rest) = b # percent_decode rest"
proof (cases "b \<in> set safe")
  case True
  with assms(2) have "b \<noteq> of_char CHR ''%''" by auto
  with True show ?thesis by (simp add: quote_byte_def)
next
  case False
  have "b div 16 < 16" using assms(1) by (simp add: div_less_iff_less_mult)
  moreover have "b mod 16 < 16" by simp
  ultimately have "hex_value (hex_digit (b div 16)) = Some (b div 16)"
    "hex_value (hex_digit (b mod 16)) = Some (b mod 16)"
    by (simp_all only: hex_value_hex_digit)
  with False show ?thesis by (simp add: quote_byte_def)
qed

lemma percent_decode_quote_from_bytes:
  assumes "\<forall>b\<in>set bs. b < 256" "of_char CHR ''%'' \<notin> set (always_safe @ safe)"
  shows "percent_decode (quote_from_bytes bs safe @ rest) = bs @ percent_decode rest"
  using assms(1)
proof (induction bs)
  case Nil
  then show ?case by (simp add: quote_from_bytes_def)
next
  case (Cons b bs)
  then show ?case
    using percent_decode_quote_byte [OF _ assms(2), of b]
    by (simp add: quote_from_bytes_def)
qed

lemma quote_upstream_decode:
  assumes "quote s = Inr q"
  shows "upstream_decode q = Some s"
proof (cases "s = []")
  case True
  with assms show ?thesis by (simp add: quote_def upstream_decode_def)
next
  case False
  with assms obtain bs where bs: "str_encode s = Inr bs"
    and q: "q = quote_from_bytes bs (py ''/'')"
    by (auto simp: quote_def and_then_def split: sum.splits)
  from percent_decode_quote_from_bytes [OF str_encode_bytes [OF bs] percent_is_unsafe, of "[]"]
  have "percent_decode q = bs" by (simp add: q)
  with str_encode_decode [OF bs] show ?thesis by (simp add: upstream_decode_def)
qed


lemma utf8_encode_char_scalar:
  "is_scalar_value c \<Longrightarrow> \<exists>bs. utf8_encode_char c = Inr bs"
  by (simp add: is_scalar_value_def utf8_encode_char_def)

lemma str_encode_scalar:
  "list_all is_scalar_value s \<Longrightarrow> \<exists>bs. str_encode s = Inr bs"
proof (induction s)
  case Nil
  show ?case by simp
next
  case (Cons c s)
  then obtain b r where "utf8_encode_char c = Inr b" "str_encode s = Inr r"
    using utf8_encode_char_scalar [of c] by auto
  then show ?case by simp
qed

lemma quote_scalar:
  "list_all is_scalar_value s \<Longrightarrow> \<exists>q. quote s = Inr q"
  using str_encode_scalar [of s] by (auto simp: quote_def)

lemma hex_digits_safe: "list_all (\<lambda>n. hex_digit n \<in> set always_safe) [0..<16]"
  by code_simp

lemma hex_digit_safe: "n < 16 \<Longrightarrow> hex_digit n \<in> set always_safe"
  using hex_digits_safe by (simp add: list_all_iff)

lemma quote_byte_chars:
  assumes "b < 256"
  shows "set (quote_byte (always_safe @ safe) b)
         \<subseteq> set always_safe \<union> set safe \<union> {of_char CHR ''%''}"
proof -
  have "b div 16 < 16" using assms by (simp add: div_less_iff_less_mult)
  moreover have "b mod 16 < 16" by simp
  ultimately have "hex_digit (b div 16) \<in> set always_safe" "hex_digit (b mod 16) \<in> set always_safe"
    by (simp_all only: hex_digit_safe)
  then show ?thesis by (auto simp: quote_byte_def)
qed

lemma quote_from_bytes_chars:
  assumes "\<forall>b\<in>set bs. b < 256"
  shows "set (quote_from_bytes bs safe) \<subseteq> set always_safe \<union> set safe \<union> {of_char CHR ''%''}"
  using assms quote_byte_chars [of _ safe] by (fastforce simp: quote_from_bytes_def)

lemma quote_chars:
  assumes "quote s = Inr q"
  shows "set q \<subseteq> set always_safe \<union> {of_char CHR ''/'', of_char CHR ''%''}"
proof (cases "s = []")
  case True
  with assms show ?thesis by (simp add: quote_def)
next
  case False
  with assms obtain bs where bs: "str_encode s = Inr bs"
    and q: "q = quote_from_bytes bs (py ''/'')"
    by (auto simp: quote_def and_then_def split: sum.splits)
  from quote_from_bytes_chars [OF str_encode_bytes [OF bs], of "py ''/''"] q
  show ?thesis by (auto simp: py_def)
qed

lemma delimiters_unsafe:
  "of_char CHR ''&'' \<notin> set always_safe \<union> {of_char CHR ''/'', of_char CHR ''%''}"
  "of_char CHR ''='' \<notin> set always_safe \<union> {of_char CHR ''/'', of_char CHR ''%''}"
  by (simp_all add: always_safe_def py_def)

lemma quote_slash: "quote (py ''A/B'') = Inr (py ''A/B'')"
  by (simp add: quote_def utf8_encode_char_def quote_from_bytes_def quote_byte_def
        always_safe_def py_def)

section \<open>Properties of the request handler\<close>

lemma preferred_language_Inr: "preferred_language inc_req = Inr (resolved_locale inc_req)"
  by (simp add: preferred_language_def get_user_language_def str_split_first
        resolved_locale_def first_segment_def py_def split: option.splits)

lemma unhandled_Inr [simp]: "unhandled (Inr x) = Inr x"
  by (simp add: unhandled_def)

lemma unhandled_Inl [simp]: "unhandled (Inl e) = Inl (Unhandled e)"
  by (simp add: unhandled_def)

lemma raise_custom_error_message:
  "get_error_messages c l = Inr m \<Longrightarrow> raise_custom_error c l = Inl (Raised (CustomError c m l c))"
  by (simp add: raise_custom_error_def)

lemma get_doc_url_falsy:
  assumes "is_falsy (args inc_req (py ''type'')) \<or> is_falsy (args inc_req (py ''ref''))"
  shows "get_doc_url base inc_req = raise_custom_error 400 (resolved_locale inc_req)"
  using assms by (simp add: get_doc_url_def preferred_language_Inr Let_def)

lemma get_doc_url_truthy:
  assumes "args inc_req (py ''type'') = Some t" "args inc_req (py ''ref'') = Some r"
    and "t \<noteq> []" "r \<noteq> []" "quote t = Inr qt" "quote r = Inr qr"
  shows "get_doc_url base inc_req =
           Inr (resolved_locale inc_req, base @ py ''?type='' @ qt @ py ''&ref='' @ qr)"
  using assms
  by (simp add: get_doc_url_def preferred_language_Inr Let_def is_falsy_def quote_arg_def
        full_req_url_def)

lemma get_doc_falsy:
  assumes "is_falsy (args inc_req (py ''type'')) \<or> is_falsy (args inc_req (py ''ref''))"
  shows "get_doc base out_req pr inc_req = (raise_custom_error 400 (resolved_locale inc_req), [])"
proof -
  from get_error_messages_returns
  obtain m where m: "get_error_messages 400 (resolved_locale inc_req) = Inr m" ..
  show ?thesis
    by (simp add: get_doc_def get_doc_url_falsy [OF assms] raise_custom_error_message [OF m])
qed

lemma get_doc_requested:
  assumes "get_doc_url base inc_req = Inr (language, url)"
  shows "get_doc base out_req pr inc_req = (get_doc_response language pr (out_req url), [url])"
  using assms by (simp add: get_doc_def)

lemma get_doc_response_connection_error:
  "get_doc_response language pr (Failed ConnectionError) = raise_custom_error 500 language"
  by (simp add: get_doc_response_def)

lemma get_doc_response_not_200:
  "status \<noteq> 200 \<Longrightarrow>
   get_doc_response language pr (Returned status body) = raise_custom_error status language"
  by (auto simp: get_doc_response_def)

lemma get_doc_bad_request:
  assumes "is_falsy (args inc_req (py ''type'')) \<or> is_falsy (args inc_req (py ''ref''))"
  shows "\<exists>m. get_error_messages 400 (resolved_locale inc_req) = Inr m \<and>
             get_doc base out_req pr inc_req
               = (Inl (Raised (CustomError 400 m (resolved_locale inc_req) 400)), [])"
proof -
  from get_error_messages_returns
  obtain m where m: "get_error_messages 400 (resolved_locale inc_req) = Inr m" ..
  with get_doc_falsy [OF assms] raise_custom_error_message [OF m] show ?thesis
    by simp
qed

lemma get_doc_connection_error:
  assumes "get_doc_url base inc_req = Inr (language, url)" "out_req url = Failed ConnectionError"
  shows "\<exists>m. get_error_messages 500 language = Inr m \<and>
             get_doc base out_req pr inc_req = (Inl (Raised (CustomError 500 m language 500)), [url])"
proof -
  from get_error_messages_returns
  obtain m where m: "get_error_messages 500 language = Inr m" ..
  with get_doc_requested [OF assms(1)] assms(2) raise_custom_error_message [OF m]
  show ?thesis by (simp add: get_doc_response_connection_error)
qed

lemma get_doc_not_200:
  assumes "get_doc_url base inc_req = Inr (language, url)" "out_req url = Returned status body"
    and "status \<noteq> 200"
  shows "\<exists>m. get_error_messages status language = Inr m \<and>
             get_doc base out_req pr inc_req
               = (Inl (Raised (CustomError status m language status)), [url])"
proof -
  from get_error_messages_returns
  obtain m where m: "get_error_messages status language = Inr m" ..
  with get_doc_requested [OF assms(1)] assms(2,3) raise_custom_error_message [OF m]
  show ?thesis by (simp add: get_doc_response_not_200)
qed

lemma handle_custom_error_status:
  "handle_custom_error (CustomError status m language code) = ((m, language, code), status)"
  by (simp add: handle_custom_error_def)

lemma get_doc_bad_request_supported:
  assumes "is_falsy (args inc_req (py ''type'')) \<or> is_falsy (args inc_req (py ''ref''))"
  shows "resolved_locale inc_req = py ''en'' \<Longrightarrow>
           get_doc base out_req pr inc_req
             = (Inl (Raised (CustomError 400 msg_400_en (py ''en'') 400)), [])"
    and "resolved_locale inc_req = py ''ru'' \<Longrightarrow>
           get_doc base out_req pr inc_req
             = (Inl (Raised (CustomError 400 msg_400_ru (py ''ru'') 400)), [])"
  using get_doc_falsy [OF assms, of base out_req]
  by (simp_all add: raise_custom_error_message get_error_messages_en get_error_messages_ru)

lemma get_doc_connection_error_supported:
  assumes "get_doc_url base inc_req = Inr (language, url)" "out_req url = Failed ConnectionError"
  shows "language = py ''en'' \<Longrightarrow>
           get_doc base out_req pr inc_req
             = (Inl (Raised (CustomError 500 msg_500_en (py ''en'') 500)), [url])"
    and "language = py ''ru'' \<Longrightarrow>
           get_doc base out_req pr inc_req
             = (Inl (Raised (CustomError 500 msg_500_ru (py ''ru'') 500)), [url])"
  using get_doc_requested [OF assms(1), of out_req] assms(2)
  by (simp_all add: get_doc_response_connection_error raise_custom_error_message
        get_error_messages_en get_error_messages_ru)

lemma get_doc_unknown_status:
  assumes "get_doc_url base inc_req = Inr (language, url)" "out_req url = Returned status body"
    and "status \<notin> {200, 400, 404, 409, 500}"
  shows "\<exists>m. get_error_messages 500 language = Inr m \<and>
             get_doc base out_req pr inc_req
               = (Inl (Raised (CustomError status m language status)), [url])"
proof -
  from assms(3) have "status \<noteq> 200" "status \<notin> {400, 404, 409, 500}" by simp_all
  with get_doc_not_200 [of base inc_req language url out_req status body]
    assms(1,2) get_error_messages_unknown_code [of status language]
  show ?thesis by simp
qed

lemma quote_T: "quote (py ''T'') = Inr (py ''T'')"
  by (simp add: quote_def utf8_encode_char_def quote_from_bytes_def quote_byte_def
        always_safe_def py_def)

lemma quote_R: "quote (py ''R'') = Inr (py ''R'')"
  by (simp add: quote_def utf8_encode_char_def quote_from_bytes_def quote_byte_def
        always_safe_def py_def)

lemma resolved_locale_fr:
  "resolved_locale \<lparr>args = a, headers = [py ''Accept-Language'' \<mapsto> py ''fr'']\<rparr> = py ''fr''"
  by (simp add: resolved_locale_def first_segment_def py_def)

lemma resolved_locale_absent:
  "resolved_locale \<lparr>args = a, headers = Map.empty\<rparr> = py ''en''"
  by (simp add: resolved_locale_def)

lemma fr_unsupported: "py ''fr'' \<noteq> py ''en''" "py ''fr'' \<noteq> py ''ru''"
  by (simp_all add: py_def)

lemma get_doc_url_T_R_fr:
  "get_doc_url (py ''http://api/doc'')
     \<lparr>args = [py ''type'' \<mapsto> py ''T'', py ''ref'' \<mapsto> py ''R''],
      headers = [py ''Accept-Language'' \<mapsto> py ''fr'']\<rparr>
     = Inr (py ''fr'', py ''http://api/doc?type=T&ref=R'')"
  using get_doc_url_truthy [OF _ _ _ _ quote_T quote_R,
      of "\<lparr>args = [py ''type'' \<mapsto> py ''T'', py ''ref'' \<mapsto> py ''R''],
           headers = [py ''Accept-Language'' \<mapsto> py ''fr'']\<rparr>"
         "py ''http://api/doc''"]
  by (simp add: py_def resolved_locale_def first_segment_def)

lemma safe_iff_kept: "b \<in> set (always_safe @ py ''/'') \<longleftrightarrow> is_kept b"
  unfolding always_safe_def py_def is_kept_def by simp presburger

lemma hex_digits_nth: "list_all (\<lambda>n. hex_digit n = py ''0123456789ABCDEF'' ! n) [0..<16]"
  by code_simp

lemma hex_digit_nth: "n < 16 \<Longrightarrow> hex_digit n = py ''0123456789ABCDEF'' ! n"
  using hex_digits_nth by (simp add: list_all_iff)

lemma quote_byte_percent:
  assumes "b < 256"
  shows "quote_byte (always_safe @ py ''/'') b = (if is_kept b then [b] else percent_triplet b)"
proof -
  have "b div 16 < 16" using assms by (simp add: div_less_iff_less_mult)
  moreover have "b mod 16 < 16" by simp
  ultimately have "hex_digit (b div 16) = py ''0123456789ABCDEF'' ! (b div 16)"
    "hex_digit (b mod 16) = py ''0123456789ABCDEF'' ! (b mod 16)"
    by (simp_all only: hex_digit_nth)
  then show ?thesis
    by (simp only: quote_byte_def safe_iff_kept percent_triplet_def)
qed

lemma quote_from_bytes_percent:
  "\<forall>b\<in>set bs. b < 256 \<Longrightarrow> quote_from_bytes bs (py ''/'') = percent_encoding bs"
  by (induction bs) (simp_all add: quote_from_bytes_def percent_encoding_def quote_byte_percent)

lemma quote_percent_encoding:
  assumes "quote s = Inr q"
  shows "\<exists>bs. str_encode s = Inr bs \<and> q = percent_encoding bs"
proof (cases "s = []")
  case True
  with assms show ?thesis by (simp add: quote_def percent_encoding_def)
next
  case False
  with assms obtain bs where bs: "str_encode s = Inr bs"
    and q: "q = quote_from_bytes bs (py ''/'')"
    by (auto simp: quote_def and_then_def split: sum.splits)
  from quote_from_bytes_percent [OF str_encode_bytes [OF bs]] bs q show ?thesis by simp
qed

lemma str_encode_a_b: "str_encode (py ''a b'') = Inr [97, 32, 98]"
  by (simp add: py_def utf8_encode_char_def)

lemma str_encode_cyrillic: "str_encode (1044 # py ''/1#'') = Inr [208, 148, 47, 49, 35]"
  by (simp add: py_def utf8_encode_char_def)

lemma percent_encoding_a_b: "percent_encoding [97, 32, 98] = py ''a%20b''"
  by (simp add: percent_encoding_def is_kept_def percent_triplet_def py_def)

lemma percent_encoding_cyrillic: "percent_encoding [208, 148, 47, 49, 35] = py ''%D0%94/1%23''"
  by (simp add: percent_encoding_def is_kept_def percent_triplet_def py_def)

text \<open>
  Claim C2, as the code has it. For a request whose \<open>type\<close> and \<open>ref\<close> are non-empty
  strings of Unicode scalar values, each value is percent-encoded on its own by \<open>quote\<close>:
  of its UTF-8 bytes, the ASCII letters, the digits and \<open>_\<close>, \<open>.\<close>, \<open>-\<close>, \<open>~\<close> and \<open>/\<close> are kept
  and every other byte becomes \<open>%XX\<close> with upper-case hexadecimal digits. The two
  encodings are put after \<open>type=\<close> and \<open>ref=\<close> in the URL; neither holds a \<open>&\<close> or a \<open>=\<close>, and
  decoding on the upstream side gives back the original string. The slash is kept: the
  value \<open>A/B\<close> is sent as \<open>A/B\<close>.
\<close>

theorem get_doc_url_round_trip:
  assumes "args inc_req (py ''type'') = Some t" "args inc_req (py ''ref'') = Some r"
    and "t \<noteq> []" "r \<noteq> []" "list_all is_scalar_value t" "list_all is_scalar_value r"
  shows "\<exists>bt br.
           str_encode t = Inr bt \<and> str_encode r = Inr br \<and>
           quote t = Inr (percent_encoding bt) \<and> quote r = Inr (percent_encoding br) \<and>
           get_doc_url base inc_req
             = Inr (resolved_locale inc_req,
                    base @ py ''?type='' @ percent_encoding bt
                         @ py ''&ref='' @ percent_encoding br) \<and>
           upstream_decode (percent_encoding bt) = Some t \<and>
           upstream_decode (percent_encoding br) = Some r \<and>
           of_char CHR ''&'' \<notin> set (percent_encoding bt) \<union> set (percent_encoding br) \<and>
           of_char CHR ''='' \<notin> set (percent_encoding bt) \<union> set (percent_encoding br) \<and>
           quote (py ''A/B'') = Inr (py ''A/B'')"
proof -
  from quote_scalar [OF assms(5)] obtain qt where qt: "quote t = Inr qt" ..
  from quote_scalar [OF assms(6)] obtain qr where qr: "quote r = Inr qr" ..
  from quote_percent_encoding [OF qt] obtain bt where
    bt: "str_encode t = Inr bt" "qt = percent_encoding bt" by auto
  from quote_percent_encoding [OF qr] obtain br where
    br: "str_encode r = Inr br" "qr = percent_encoding br" by auto
  have "of_char CHR ''&'' \<notin> set qt" "of_char CHR ''&'' \<notin> set qr"
    "of_char CHR ''='' \<notin> set qt" "of_char CHR ''='' \<notin> set qr"
    using quote_chars [OF qt] quote_chars [OF qr] delimiters_unsafe by blast+
  with qt qr bt br get_doc_url_truthy [OF assms(1-4) qt qr, of base]
    quote_upstream_decode [OF qt] quote_upstream_decode [OF qr] quote_slash
  show ?thesis by auto
qed

theorem get_doc_url_round_trip_witness:
  "quote (py ''a b'') = Inr (py ''a%20b'') \<and>
   quote (1044 # py ''/1#'') = Inr (py ''%D0%94/1%23'') \<and>
   get_doc_url (py ''http://api/doc'')
     \<lparr>args = [py ''type'' \<mapsto> py ''a b'', py ''ref'' \<mapsto> 1044 # py ''/1#''],
      headers = Map.empty\<rparr>
     = Inr (py ''en'', py ''http://api/doc?type=a%20b&ref=%D0%94/1%23'') \<and>
   upstream_decode (py ''a%20b'') = Some (py ''a b'') \<and>
   upstream_decode (py ''%D0%94/1%23'') = Some (1044 # py ''/1#'')"
proof -
  let ?req = "\<lparr>args = [py ''type'' \<mapsto> py ''a b'', py ''ref'' \<mapsto> 1044 # py ''/1#''],
               headers = Map.empty\<rparr>"
  have "args ?req (py ''type'') = Some (py ''a b'')" "args ?req (py ''ref'') = Some (1044 # py ''/1#'')"
    "py ''a b'' \<noteq> []" "1044 # py ''/1#'' \<noteq> []"
    "list_all is_scalar_value (py ''a b'')" "list_all is_scalar_value (1044 # py ''/1#'')"
    by (simp_all add: py_def is_scalar_value_def)
  from get_doc_url_round_trip [OF this, of "py ''http://api/doc''"]
  obtain bt br where
    e: "str_encode (py ''a b'') = Inr bt" "str_encode (1044 # py ''/1#'') = Inr br" and
    q: "quote (py ''a b'') = Inr (percent_encoding bt)"
       "quote (1044 # py ''/1#'') = Inr (percent_encoding br)" and
    u: "get_doc_url (py ''http://api/doc'') ?req
          = Inr (resolved_locale ?req,
                 py ''http://api/doc'' @ py ''?type='' @ percent_encoding bt
                   @ py ''&ref='' @ percent_encoding br)" and
    d: "upstream_decode (percent_encoding bt) = Some (py ''a b'')"
       "upstream_decode (percent_encoding br) = Some (1044 # py ''/1#'')"
    by blast
  from e(1) [unfolded str_encode_a_b] e(2) [unfolded str_encode_cyrillic]
  have "bt = [97, 32, 98]" "br = [208, 148, 47, 49, 35]"
    by simp_all
  then have enc: "percent_encoding bt = py ''a%20b''" "percent_encoding br = py ''%D0%94/1%23''"
    by (simp_all add: percent_encoding_a_b percent_encoding_cyrillic)
  have "py ''http://api/doc'' @ py ''?type='' @ py ''a%20b'' @ py ''&ref='' @ py ''%D0%94/1%23''
          = py ''http://api/doc?type=a%20b&ref=%D0%94/1%23''"
    by (simp add: py_def)
  with q u d show ?thesis
    by (simp only: enc resolved_locale_absent simp_thms)
qed

text \<open>
  The claim C2 as it is worded has \<open>A/B\<close> encoded as \<open>A%2FB\<close>. The code leaves the slash as
  it is, also in the URL that is requested.
\<close>

theorem slash_is_not_percent_encoded:
  "quote (py ''A/B'') = Inr (py ''A/B'') \<and>
   quote (py ''A/B'') \<noteq> Inr (py ''A%2FB'') \<and>
   get_doc_url (py ''http://api/doc'')
     \<lparr>args = [py ''type'' \<mapsto> py ''T'', py ''ref'' \<mapsto> py ''A/B''], headers = Map.empty\<rparr>
     = Inr (py ''en'', py ''http://api/doc?type=T&ref=A/B'')"
proof -
  have "get_doc_url (py ''http://api/doc'')
     \<lparr>args = [py ''type'' \<mapsto> py ''T'', py ''ref'' \<mapsto> py ''A/B''], headers = Map.empty\<rparr>
     = Inr (py ''en'', py ''http://api/doc'' @ py ''?type='' @ py ''T'' @ py ''&ref='' @ py ''A/B'')"
    using get_doc_url_truthy [OF _ _ _ _ quote_T quote_slash,
      of "\<lparr>args = [py ''type'' \<mapsto> py ''T'', py ''ref'' \<mapsto> py ''A/B''], headers = Map.empty\<rparr>"
         "py ''http://api/doc''"]
    by (simp add: py_def resolved_locale_def)
  moreover have "py ''A/B'' \<noteq> py ''A%2FB''" by (simp add: py_def)
  ultimately show ?thesis using quote_slash by (simp add: py_def)
qed

text \<open>
  Claim C3, which says that a request without \<open>type\<close> or \<open>ref\<close> fails before any outbound
  call with status 400, error code 400 and the invalid-parameters message of its locale.
  Status, code and the absence of an outbound call are as claimed
  (\<open>get_doc_bad_request\<close>), and so is the message for the locales \<open>en\<close> and \<open>ru\<close>
  (\<open>get_doc_bad_request_supported\<close>). For any other locale the message is the string
  \<open>'en'\<close>: here a request without \<open>type\<close> and with \<open>Accept-Language: fr\<close>.
\<close>

theorem get_doc_missing_type_fr:
  "get_doc (py ''http://api/doc'') out_req pr
     \<lparr>args = [py ''ref'' \<mapsto> py ''R''], headers = [py ''Accept-Language'' \<mapsto> py ''fr'']\<rparr>
     = (Inl (Raised (CustomError 400 (py ''en'') (py ''fr'') 400)), []) \<and>
   py ''en'' \<noteq> msg_400_en \<and> py ''en'' \<noteq> msg_400_ru"
proof -
  let ?req = "\<lparr>args = [py ''ref'' \<mapsto> py ''R''], headers = [py ''Accept-Language'' \<mapsto> py ''fr'']\<rparr>"
  have "is_falsy (args ?req (py ''type''))"
    by (simp add: is_falsy_def py_def)
  then have "get_doc (py ''http://api/doc'') out_req pr ?req
               = (raise_custom_error 400 (resolved_locale ?req), [])"
    by (simp add: get_doc_falsy)
  moreover have "get_error_messages 400 (py ''fr'') = Inr (py ''en'')"
    using fr_unsupported by (simp add: get_error_messages_absent_locale)
  ultimately show ?thesis
    using en_is_no_message by (simp add: resolved_locale_fr raise_custom_error_message)
qed

text \<open>
  Claim C4, which says that an upstream status other than 200 is mirrored as HTTP status
  and as error code, and that outside 400, 404, 409 and 500 the message text comes from
  the 500 entry. Status and code are mirrored as claimed (\<open>get_doc_not_200\<close>), and the
  lookup is the one of code 500 (\<open>get_doc_unknown_status\<close>). That lookup gives a text of the
  500 entry only for the locales \<open>en\<close> and \<open>ru\<close>; for any other locale the message is the
  string \<open>'en'\<close>: here the upstream status 503 and \<open>Accept-Language: fr\<close>.
\<close>

theorem get_doc_status_503_fr:
  "get_doc (py ''http://api/doc'') (\<lambda>url. Returned 503 None) pr
     \<lparr>args = [py ''type'' \<mapsto> py ''T'', py ''ref'' \<mapsto> py ''R''],
      headers = [py ''Accept-Language'' \<mapsto> py ''fr'']\<rparr>
     = (Inl (Raised (CustomError 503 (py ''en'') (py ''fr'') 503)),
        [py ''http://api/doc?type=T&ref=R'']) \<and>
   py ''en'' \<noteq> msg_500_en \<and> py ''en'' \<noteq> msg_500_ru"
proof -
  have "get_error_messages 500 (py ''fr'') = Inr (py ''en'')"
    using fr_unsupported by (simp add: get_error_messages_absent_locale)
  then have "get_error_messages 503 (py ''fr'') = Inr (py ''en'')"
    by (simp add: get_error_messages_unknown_code)
  then show ?thesis
    using en_is_no_message
    by (simp add: get_doc_requested [OF get_doc_url_T_R_fr]
          get_doc_response_not_200 raise_custom_error_message)
qed

text \<open>
  Claim C7, which says that a connection failure of the outbound call gives status 500,
  error code 500 and the service-unavailable message of the locale. Status and code are
  as claimed (\<open>get_doc_connection_error\<close>), and so is the message for the locales \<open>en\<close>
  and \<open>ru\<close> (\<open>get_doc_connection_error_supported\<close>). For any other locale the message is
  the string \<open>'en'\<close>: here a request with \<open>Accept-Language: fr\<close>.
\<close>

theorem get_doc_connection_error_fr:
  "get_doc (py ''http://api/doc'') (\<lambda>url. Failed ConnectionError) pr
     \<lparr>args = [py ''type'' \<mapsto> py ''T'', py ''ref'' \<mapsto> py ''R''],
      headers = [py ''Accept-Language'' \<mapsto> py ''fr'']\<rparr>
     = (Inl (Raised (CustomError 500 (py ''en'') (py ''fr'') 500)),
        [py ''http://api/doc?type=T&ref=R'']) \<and>
   py ''en'' \<noteq> msg_500_en \<and> py ''en'' \<noteq> msg_500_ru"
proof -
  have "get_error_messages 500 (py ''fr'') = Inr (py ''en'')"
    using fr_unsupported by (simp add: get_error_messages_absent_locale)
  then show ?thesis
    using en_is_no_message
    by (simp add: get_doc_requested [OF get_doc_url_T_R_fr]
          get_doc_response_connection_error raise_custom_error_message)
qed

section \<open>Properties of the response mapper\<close>

lemma and_then_eq_Inr: "and_then r f = Inr y \<longleftrightarrow> (\<exists>x. r = Inr x \<and> f x = Inr y)"
  by (cases r) simp_all

lemma dict_contains_iff: "dict_contains d k \<longleftrightarrow> k \<in> fst ` set d"
  by (simp add: dict_contains_def map_of_eq_None_iff)

lemma keys_dict_setitem: "fst ` set (dict_setitem d k v) = insert k (fst ` set d)"
  by (induction d) force+

lemma map_of_dict_setitem: "map_of (dict_setitem d k v) = (map_of d)(k \<mapsto> v)"
  by (induction d) (auto simp: fun_eq_iff)

lemma dict_setitem_fresh: "k \<notin> fst ` set d \<Longrightarrow> dict_setitem d k v = d @ [(k, v)]"
  by (induction d) auto

lemma dict_getitem_eq_Inr: "dict_getitem d k = Inr v \<longleftrightarrow> map_of d k = Some v"
  by (simp add: dict_getitem_def split: option.splits)

lemma dict_literal_Inr:
  "dict_literal fs = Inr d \<longleftrightarrow> list_all2 (\<lambda>(n, r) (k, v). k = KStr n \<and> r = Inr v) fs d"
proof (induction fs arbitrary: d)
  case Nil
  show ?case by auto
next
  case (Cons f fs)
  obtain n r where f: "f = (n, r)" by (cases f)
  show ?case
    by (cases d) (auto simp: f and_then_eq_Inr Cons.IH)
qed

lemma add_sign_data_keys:
  assumes "add_sign_data rd data = Inr data'"
  shows "fst ` set data' =
           (if dict_contains rd (KStr k_SignatureData)
            then insert (KStr (py ''sign_data'')) (fst ` set data) else fst ` set data)"
  using assms
  by (clarsimp simp: add_sign_data_def and_then_eq_Inr keys_dict_setitem
        simp del: dict_literal.simps split: if_splits)

lemma add_attached_files_keys:
  assumes "add_attached_files rd data = Inr data'"
  shows "fst ` set data' =
           (if dict_contains rd (KStr k_FilesData)
            then insert (KStr (py ''attached_files'')) (fst ` set data) else fst ` set data)"
  using assms
  by (clarsimp simp: add_attached_files_def and_then_eq_Inr keys_dict_setitem split: if_splits)

lemma add_approvement_data_keys:
  assumes "add_approvement_data rd data = Inr data'"
  shows "fst ` set data' =
           (if dict_contains rd (KStr k_ApprovalData)
            then insert (KStr (py ''approvement_data'')) (fst ` set data) else fst ` set data)"
  using assms
  by (clarsimp simp: add_approvement_data_def and_then_eq_Inr keys_dict_setitem split: if_splits)

lemma add_qr_data_keys:
  assumes "add_qr_data rd data = Inr data'"
  shows "fst ` set data' =
           (if dict_contains rd (KStr k_QRData)
            then insert (KStr (py ''qr_data'')) (fst ` set data) else fst ` set data)"
  using assms
  by (clarsimp simp: add_qr_data_def and_then_eq_Inr keys_dict_setitem
        simp del: dict_literal.simps split: if_splits)

lemma document_data_section:
  assumes "document_data rd = Inr doc"
  shows "dict_contains rd (KStr k_DocumentData)"
  using assms
  by (auto simp: document_data_def and_then_eq_Inr section_field_def dict_getitem_eq_Inr
        dict_contains_def)

lemma obj_items_Inr: "obj_items obj = Inr d \<longleftrightarrow> obj = PDict d"
  by (cases obj) (simp_all add: obj_items_def)

lemma build_data_steps:
  assumes "build_data pr payload = Inr data"
  obtains rd doc d1 d2 d3 where
    "payload = PDict rd" "document_data rd = Inr doc"
    "add_sign_data rd [(KStr (py ''document_data''), PDict doc)] = Inr d1"
    "add_attached_files rd d1 = Inr d2"
    "add_approvement_data rd d2 = Inr d3"
    "add_qr_data rd d3 = Inr data"
  using assms by (auto simp: build_data_def and_then_eq_Inr obj_items_Inr)

lemma build_data_key_set:
  assumes "build_data pr (PDict rd) = Inr data"
  shows "fst ` set data =
           {KStr (py ''document_data'')}
           \<union> section_key (dict_contains rd (KStr k_SignatureData)) (py ''sign_data'')
           \<union> section_key (dict_contains rd (KStr k_FilesData)) (py ''attached_files'')
           \<union> section_key (dict_contains rd (KStr k_ApprovalData)) (py ''approvement_data'')
           \<union> section_key (dict_contains rd (KStr k_QRData)) (py ''qr_data'')"
proof -
  from assms obtain doc d1 d2 d3 where
    "add_sign_data rd [(KStr (py ''document_data''), PDict doc)] = Inr d1"
    "add_attached_files rd d1 = Inr d2"
    "add_approvement_data rd d2 = Inr d3"
    "add_qr_data rd d3 = Inr data"
    by (auto elim: build_data_steps)
  from add_qr_data_keys [OF this(4)] add_approvement_data_keys [OF this(3)]
    add_attached_files_keys [OF this(2)] add_sign_data_keys [OF this(1)]
  show ?thesis
    by (auto simp: section_key_def split: if_splits)
qed

lemma presentation_keys_distinct:
  "distinct [py ''document_data'', py ''sign_data'', py ''attached_files'',
             py ''approvement_data'', py ''qr_data'']"
  by (simp add: py_def)

lemma build_data_keys_of_sections:
  assumes "build_data pr payload = Inr data"
  shows "\<exists>request_data. payload = PDict request_data \<and>
     fst ` set data \<subseteq> KStr ` {py ''document_data'', py ''sign_data'', py ''attached_files'',
                                py ''approvement_data'', py ''qr_data''} \<and>
     (dict_contains data (KStr (py ''document_data''))
        \<longleftrightarrow> dict_contains request_data (KStr k_DocumentData)) \<and>
     (dict_contains data (KStr (py ''sign_data''))
        \<longleftrightarrow> dict_contains request_data (KStr k_SignatureData)) \<and>
     (dict_contains data (KStr (py ''attached_files''))
        \<longleftrightarrow> dict_contains request_data (KStr k_FilesData)) \<and>
     (dict_contains data (KStr (py ''approvement_data''))
        \<longleftrightarrow> dict_contains request_data (KStr k_ApprovalData)) \<and>
     (dict_contains data (KStr (py ''qr_data''))
        \<longleftrightarrow> dict_contains request_data (KStr k_QRData))"
proof -
  from assms obtain rd doc where rd: "payload = PDict rd" and doc: "document_data rd = Inr doc"
    by (auto elim: build_data_steps)
  note keys = build_data_key_set [OF assms [unfolded rd]]
  have sub: "fst ` set data \<subseteq> KStr ` {py ''document_data'', py ''sign_data'',
               py ''attached_files'', py ''approvement_data'', py ''qr_data''}"
    unfolding keys by (auto simp: section_key_def)
  have d: "dict_contains data (KStr (py ''document_data''))
             \<longleftrightarrow> dict_contains rd (KStr k_DocumentData)"
    using document_data_section [OF doc] by (simp add: dict_contains_iff [of data] keys)
  have s: "dict_contains data (KStr (py ''sign_data''))
             \<longleftrightarrow> dict_contains rd (KStr k_SignatureData)"
    using presentation_keys_distinct
    by (auto simp: dict_contains_iff [of data] keys section_key_def)
  have f: "dict_contains data (KStr (py ''attached_files''))
             \<longleftrightarrow> dict_contains rd (KStr k_FilesData)"
    using presentation_keys_distinct
    by (auto simp: dict_contains_iff [of data] keys section_key_def)
  have a: "dict_contains data (KStr (py ''approvement_data''))
             \<longleftrightarrow> dict_contains rd (KStr k_ApprovalData)"
    using presentation_keys_distinct
    by (auto simp: dict_contains_iff [of data] keys section_key_def)
  have q: "dict_contains data (KStr (py ''qr_data''))
             \<longleftrightarrow> dict_contains rd (KStr k_QRData)"
    using presentation_keys_distinct
    by (auto simp: dict_contains_iff [of data] keys section_key_def)
  from rd sub d s f a q show ?thesis by simp
qed

lemma reindexed_keys:
  "map fst (reindexed i es) = map (\<lambda>j. KInt (i + int j)) [0..<length es]"
proof (induction es arbitrary: i)
  case Nil
  show ?case by simp
next
  case (Cons e es)
  have "[0..<length (e # es)] = 0 # map Suc [0..<length es]"
    by (simp add: upt_conv_Cons map_Suc_upt del: upt_Suc)
  then show ?case by (simp add: Cons.IH comp_def add.assoc)
qed

lemma reindexed_lookup:
  "j < length es \<Longrightarrow> map_of (reindexed i es) (KInt (i + int j)) = Some (PDict (es ! j))"
proof (induction es arbitrary: i j)
  case Nil
  then show ?case by simp
next
  case (Cons e es)
  show ?case
  proof (cases j)
    case 0
    then show ?thesis by simp
  next
    case (Suc j')
    with Cons.prems have "j' < length es" by simp
    from Cons.IH [OF this, of "i + 1"] Suc show ?thesis by (simp add: add.assoc)
  qed
qed

lemma reindexed_keys_ge: "k \<in> fst ` set (reindexed i es) \<Longrightarrow> \<exists>j. k = KInt j \<and> i \<le> j"
proof (induction es arbitrary: i)
  case Nil
  then show ?case by simp
next
  case (Cons e es)
  then show ?case by fastforce
qed

lemma approvement_loop_result:
  assumes "approvement_loop acc index persons = Inr res"
    and "\<forall>k\<in>fst ` set acc. \<exists>j. k = KInt j \<and> j < index"
  shows "\<exists>es. list_all2 (\<lambda>person e. approvement_entry person = Inr e) persons es \<and>
              res = acc @ reindexed index es"
  using assms
proof (induction persons arbitrary: acc index)
  case Nil
  then show ?case by simp
next
  case (Cons person rest)
  from Cons.prems(1) obtain e where e: "approvement_entry person = Inr e"
    and loop: "approvement_loop (dict_setitem acc (KInt index) (PDict e)) (index + 1) rest = Inr res"
    by (auto simp: and_then_eq_Inr)
  have fresh: "KInt index \<notin> fst ` set acc"
    using Cons.prems(2) by fastforce
  then have acc': "dict_setitem acc (KInt index) (PDict e) = acc @ [(KInt index, PDict e)]"
    by (rule dict_setitem_fresh)
  have inv: "\<forall>k\<in>fst ` set (acc @ [(KInt index, PDict e)]). \<exists>j. k = KInt j \<and> j < index + 1"
    using Cons.prems(2) by fastforce
  from Cons.IH [OF loop [unfolded acc'] inv]
  obtain es where "list_all2 (\<lambda>person e. approvement_entry person = Inr e) rest es"
    and "res = (acc @ [(KInt index, PDict e)]) @ reindexed (index + 1) es"
    by auto
  with e have "list_all2 (\<lambda>person e. approvement_entry person = Inr e) (person # rest) (e # es)"
    and "res = acc @ reindexed index (e # es)"
    by simp_all
  then show ?case by blast
qed

lemma approvement_entry_Inr:
  "approvement_entry person = Inr e \<longleftrightarrow>
     (\<exists>role name date mark comment.
        obj_getitem person k_Position = Inr role \<and>
        obj_getitem person k_Executor = Inr name \<and>
        obj_getitem person k_ExecutionDate = Inr date \<and>
        obj_getitem person k_ApprovalResult = Inr mark \<and>
        obj_getitem person k_ExecutionResult = Inr comment \<and>
        e = [(KStr (py ''role''), role), (KStr (py ''name''), name),
             (KStr (py ''sign_date''), date), (KStr (py ''approvement_mark''), mark),
             (KStr (py ''comment''), comment)])"
  by (auto simp: approvement_entry_def and_then_eq_Inr)

lemma add_approvement_data_list:
  assumes "add_approvement_data rd d = Inr d'"
    and "map_of rd (KStr k_ApprovalData) = Some (PList persons)"
  shows "\<exists>es. list_all2 (\<lambda>person e. approvement_entry person = Inr e) persons es \<and>
              d' = dict_setitem d (KStr (py ''approvement_data'')) (PDict (reindexed 0 es))"
proof -
  from assms obtain res where loop: "approvement_loop [] 0 persons = Inr res"
    and d': "d' = dict_setitem d (KStr (py ''approvement_data'')) (PDict res)"
    by (auto simp: add_approvement_data_def dict_contains_def and_then_eq_Inr
          dict_getitem_eq_Inr obj_iter_def)
  from approvement_loop_result [OF loop] d' show ?thesis by auto
qed

lemma add_qr_data_other:
  assumes "add_qr_data rd d = Inr d'" "k \<noteq> KStr (py ''qr_data'')"
  shows "map_of d' k = map_of d k"
  using assms
  by (clarsimp simp: add_qr_data_def and_then_eq_Inr map_of_dict_setitem
        simp del: dict_literal.simps split: if_splits)

lemma add_approvement_data_other:
  assumes "add_approvement_data rd d = Inr d'" "k \<noteq> KStr (py ''approvement_data'')"
  shows "map_of d' k = map_of d k"
  using assms
  by (clarsimp simp: add_approvement_data_def and_then_eq_Inr map_of_dict_setitem
        split: if_splits)

lemma add_attached_files_other:
  assumes "add_attached_files rd d = Inr d'" "k \<noteq> KStr (py ''attached_files'')"
  shows "map_of d' k = map_of d k"
  using assms
  by (clarsimp simp: add_attached_files_def and_then_eq_Inr map_of_dict_setitem
        split: if_splits)

lemma add_sign_data_other:
  assumes "add_sign_data rd d = Inr d'" "k \<noteq> KStr (py ''sign_data'')"
  shows "map_of d' k = map_of d k"
  using assms
  by (clarsimp simp: add_sign_data_def and_then_eq_Inr map_of_dict_setitem
        simp del: dict_literal.simps split: if_splits)

text \<open>
  Claim C6. In the presentation model of a payload, \<open>approvement_data\<close> is absent when the
  approval section is absent; when the section is a list of \<open>N\<close> entries,
  \<open>approvement_data\<close> is a dictionary whose keys are exactly the integers 0 to \<open>N - 1\<close>, in
  this order, and key \<open>i\<close> holds role, name, date, approval mark and comment of entry \<open>i\<close>
  of the list.
\<close>

theorem approvement_data_reindexed:
  assumes "build_data pr (PDict request_data) = Inr data"
  shows "(\<not> dict_contains request_data (KStr k_ApprovalData)
            \<longrightarrow> \<not> dict_contains data (KStr (py ''approvement_data''))) \<and>
         (\<forall>persons. map_of request_data (KStr k_ApprovalData) = Some (PList persons) \<longrightarrow>
            (\<exists>approvals.
               map_of data (KStr (py ''approvement_data'')) = Some (PDict approvals) \<and>
               map fst approvals = map (\<lambda>i. KInt (int i)) [0..<length persons] \<and>
               (\<forall>i<length persons. \<exists>role name date mark comment.
                  obj_getitem (persons ! i) k_Position = Inr role \<and>
                  obj_getitem (persons ! i) k_Executor = Inr name \<and>
                  obj_getitem (persons ! i) k_ExecutionDate = Inr date \<and>
                  obj_getitem (persons ! i) k_ApprovalResult = Inr mark \<and>
                  obj_getitem (persons ! i) k_ExecutionResult = Inr comment \<and>
                  map_of approvals (KInt (int i)) =
                    Some (PDict [(KStr (py ''role''), role), (KStr (py ''name''), name),
                                 (KStr (py ''sign_date''), date),
                                 (KStr (py ''approvement_mark''), mark),
                                 (KStr (py ''comment''), comment)]))))"
proof (intro conjI allI impI)
  assume "\<not> dict_contains request_data (KStr k_ApprovalData)"
  with build_data_key_set [OF assms] presentation_keys_distinct
  show "\<not> dict_contains data (KStr (py ''approvement_data''))"
    by (auto simp: dict_contains_iff [of data] section_key_def)
next
  fix persons
  assume sec: "map_of request_data (KStr k_ApprovalData) = Some (PList persons)"
  from assms obtain d2 d3 where
    app: "add_approvement_data request_data d2 = Inr d3" and
    qr: "add_qr_data request_data d3 = Inr data"
    by (auto elim: build_data_steps)
  from add_approvement_data_list [OF app sec] obtain es where
    es: "list_all2 (\<lambda>person e. approvement_entry person = Inr e) persons es" and
    d3: "d3 = dict_setitem d2 (KStr (py ''approvement_data'')) (PDict (reindexed 0 es))"
    by auto
  have len: "length es = length persons"
    using es by (simp add: list_all2_lengthD)
  have "KStr (py ''approvement_data'') \<noteq> KStr (py ''qr_data'')"
    by (simp add: py_def)
  from add_qr_data_other [OF qr this]
  have look: "map_of data (KStr (py ''approvement_data'')) = Some (PDict (reindexed 0 es))"
    by (simp add: d3 map_of_dict_setitem)
  have keys: "map fst (reindexed 0 es) = map (\<lambda>i. KInt (int i)) [0..<length persons]"
    using reindexed_keys [of 0 es] by (simp add: len)
  have entries: "\<exists>role name date mark comment.
        obj_getitem (persons ! i) k_Position = Inr role \<and>
        obj_getitem (persons ! i) k_Executor = Inr name \<and>
        obj_getitem (persons ! i) k_ExecutionDate = Inr date \<and>
        obj_getitem (persons ! i) k_ApprovalResult = Inr mark \<and>
        obj_getitem (persons ! i) k_ExecutionResult = Inr comment \<and>
        map_of (reindexed 0 es) (KInt (int i)) =
          Some (PDict [(KStr (py ''role''), role), (KStr (py ''name''), name),
                       (KStr (py ''sign_date''), date),
                       (KStr (py ''approvement_mark''), mark),
                       (KStr (py ''comment''), comment)])"
    if "i < length persons" for i
  proof -
    from list_all2_nthD [OF es that] have "approvement_entry (persons ! i) = Inr (es ! i)" .
    moreover from that len have "map_of (reindexed 0 es) (KInt (int i)) = Some (PDict (es ! i))"
      using reindexed_lookup [of i es 0] by simp
    ultimately show ?thesis
      by (auto simp: approvement_entry_Inr)
  qed
  from look keys entries
  show "\<exists>approvals.
               map_of data (KStr (py ''approvement_data'')) = Some (PDict approvals) \<and>
               map fst approvals = map (\<lambda>i. KInt (int i)) [0..<length persons] \<and>
               (\<forall>i<length persons. \<exists>role name date mark comment.
                  obj_getitem (persons ! i) k_Position = Inr role \<and>
                  obj_getitem (persons ! i) k_Executor = Inr name \<and>
                  obj_getitem (persons ! i) k_ExecutionDate = Inr date \<and>
                  obj_getitem (persons ! i) k_ApprovalResult = Inr mark \<and>
                  obj_getitem (persons ! i) k_ExecutionResult = Inr comment \<and>
                  map_of approvals (KInt (int i)) =
                    Some (PDict [(KStr (py ''role''), role), (KStr (py ''name''), name),
                                 (KStr (py ''sign_date''), date),
                                 (KStr (py ''approvement_mark''), mark),
                                 (KStr (py ''comment''), comment)]))"
    by blast
qed

lemma obj_getitem_Inr:
  "obj_getitem obj k = Inr v \<longleftrightarrow> (\<exists>d. obj = PDict d \<and> map_of d (KStr k) = Some v)"
  by (cases obj) (simp_all add: obj_getitem_def dict_getitem_eq_Inr)

lemma section_field_Inr:
  "section_field rd sec field = Inr v \<longleftrightarrow>
     (\<exists>d. map_of rd (KStr sec) = Some (PDict d) \<and> map_of d (KStr field) = Some v)"
  by (auto simp: section_field_def and_then_eq_Inr dict_getitem_eq_Inr obj_getitem_Inr)

lemma obj_getitem_has_field:
  "obj_getitem obj k = Inr v \<Longrightarrow> has_fields obj [k]"
  by (auto simp: obj_getitem_Inr has_fields_def dict_contains_def)

lemma has_fields_Cons:
  "has_fields obj (k # ks) \<longleftrightarrow> has_fields obj [k] \<and> (ks = [] \<or> has_fields obj ks)"
  by (cases obj) (auto simp: has_fields_def)

lemma document_data_Inr:
  "document_data rd = Inr doc \<longleftrightarrow>
     (\<exists>sec name number date registrar.
        map_of rd (KStr k_DocumentData) = Some (PDict sec) \<and>
        map_of sec (KStr k_Name) = Some name \<and>
        map_of sec (KStr k_DocumentNumber) = Some number \<and>
        map_of sec (KStr k_RegistrationDate) = Some date \<and>
        map_of sec (KStr k_RegisteredBy) = Some registrar \<and>
        doc = [(KStr (py ''document_name''), name), (KStr (py ''document_number''), number),
               (KStr (py ''registration_date''), date), (KStr (py ''registered_by''), registrar),
               (KStr (py ''prepared_by''),
                case map_of sec (KStr k_PreparedBy) of None \<Rightarrow> PStr [] | Some v \<Rightarrow> v)])"
  by (auto simp: document_data_def and_then_eq_Inr section_field_Inr dict_getitem_eq_Inr
        obj_get_def dict_get_def)

lemma cor_file_data_fields:
  "cor_file_data file_data = Inr d \<Longrightarrow>
     has_fields file_data [k_AttachedFile, k_SignDate, k_SignedBy, k_AttachedBy]"
  by (auto simp: cor_file_data_def and_then_eq_Inr obj_getitem_Inr has_fields_def
        dict_contains_def)

lemma approvement_entry_fields:
  "approvement_entry person = Inr e \<Longrightarrow>
     has_fields person
       [k_Position, k_Executor, k_ExecutionDate, k_ApprovalResult, k_ExecutionResult]"
  by (auto simp: approvement_entry_def and_then_eq_Inr obj_getitem_Inr has_fields_def
        dict_contains_def)

lemma attached_files_loop_fields:
  "attached_files_loop acc entries = Inr res \<Longrightarrow>
     list_all (\<lambda>(file, file_data).
        has_fields file_data [k_AttachedFile, k_SignDate, k_SignedBy, k_AttachedBy]) entries"
proof (induction entries arbitrary: acc)
  case Nil
  show ?case by simp
next
  case (Cons entry entries)
  obtain fname file_data where entry: "entry = (fname, file_data)" by (cases entry)
  from Cons.prems obtain d where d: "cor_file_data file_data = Inr d"
    and rest: "attached_files_loop (dict_setitem acc fname (PDict d)) entries = Inr res"
    by (auto simp: entry and_then_eq_Inr)
  from cor_file_data_fields [OF d] Cons.IH [OF rest] show ?case
    by (simp add: entry)
qed

lemma approvement_loop_fields:
  "approvement_loop acc index persons = Inr res \<Longrightarrow>
     list_all (\<lambda>person. has_fields person
       [k_Position, k_Executor, k_ExecutionDate, k_ApprovalResult, k_ExecutionResult]) persons"
proof (induction persons arbitrary: acc index)
  case Nil
  show ?case by simp
next
  case (Cons person persons)
  from Cons.prems obtain e where e: "approvement_entry person = Inr e"
    and rest: "approvement_loop (dict_setitem acc (KInt index) (PDict e)) (index + 1) persons
                 = Inr res"
    by (auto simp: and_then_eq_Inr)
  from approvement_entry_fields [OF e] Cons.IH [OF rest] show ?case
    by simp
qed

lemma add_sign_data_fields:
  assumes "add_sign_data rd d = Inr d'" "map_of rd (KStr k_SignatureData) = Some s"
  shows "has_fields s [k_PublicKey, k_SignedBy, k_SignDate, k_StartDate, k_EndDate,
                       k_IssuedBy, k_IssuedTo]"
  using assms
  by (auto simp: add_sign_data_def dict_contains_def and_then_eq_Inr section_field_Inr
        has_fields_def)

lemma add_attached_files_fields:
  assumes "add_attached_files rd d = Inr d'" "map_of rd (KStr k_FilesData) = Some fs"
  shows "\<exists>entries. fs = PDict entries \<and>
           list_all (\<lambda>(file, file_data).
             has_fields file_data [k_AttachedFile, k_SignDate, k_SignedBy, k_AttachedBy]) entries"
  using assms
  by (auto simp: add_attached_files_def dict_contains_def and_then_eq_Inr dict_getitem_eq_Inr
        obj_items_Inr dest: attached_files_loop_fields)

lemma add_approvement_data_fields:
  assumes "add_approvement_data rd d = Inr d'"
    and "map_of rd (KStr k_ApprovalData) = Some (PList persons)"
  shows "list_all (\<lambda>person. has_fields person
       [k_Position, k_Executor, k_ExecutionDate, k_ApprovalResult, k_ExecutionResult]) persons"
  using assms
  by (auto simp: add_approvement_data_def dict_contains_def and_then_eq_Inr dict_getitem_eq_Inr
        obj_iter_def dest: approvement_loop_fields)

lemma add_qr_data_fields:
  assumes "add_qr_data rd d = Inr d'" "map_of rd (KStr k_QRData) = Some qr"
  shows "has_fields qr [k_QRBinary, k_OriginalLink]"
  using assms
  by (auto simp: add_qr_data_def dict_contains_def and_then_eq_Inr section_field_Inr
        has_fields_def)

lemmas k_defs =
  k_DocumentData_def k_Name_def k_DocumentNumber_def k_RegistrationDate_def k_RegisteredBy_def
  k_PreparedBy_def k_SignatureData_def k_PublicKey_def k_SignedBy_def k_SignDate_def
  k_StartDate_def k_EndDate_def k_IssuedBy_def k_IssuedTo_def k_FilesData_def
  k_AttachedFile_def k_AttachedBy_def k_ApprovalData_def k_Position_def k_Executor_def
  k_ExecutionDate_def k_ApprovalResult_def k_ExecutionResult_def k_QRData_def k_QRBinary_def
  k_OriginalLink_def

lemma build_data_example: "build_data (\<lambda>key val. None) (PDict example_request_data) = Inr example_data"
  by (simp add: build_data_def obj_items_def document_data_def section_field_def
        dict_getitem_def obj_getitem_def obj_get_def dict_get_def dict_contains_def
        add_sign_data_def add_attached_files_def add_approvement_data_def add_qr_data_def
        cor_file_data_def approvement_entry_def obj_iter_def
        example_request_data_def example_data_def k_defs py_def)

lemma build_data_document_only:
  "build_data (\<lambda>key val. None) (PDict document_only_request_data) = Inr document_only_data"
  by (simp add: build_data_def obj_items_def document_data_def section_field_def
        dict_getitem_def obj_getitem_def obj_get_def dict_get_def dict_contains_def
        add_sign_data_def add_attached_files_def add_approvement_data_def add_qr_data_def
        document_only_request_data_def document_only_data_def k_defs py_def)

theorem approvement_data_reindexed_witness:
  "build_data (\<lambda>key val. None) (PDict example_request_data) = Inr example_data \<and>
   (\<exists>approvals.
      map_of example_data (KStr (py ''approvement_data'')) = Some (PDict approvals) \<and>
      map fst approvals = [KInt 0, KInt 1] \<and>
      (\<exists>v. map_of approvals (KInt 0) = Some (PDict v) \<and>
           map_of v (KStr (py ''role'')) = Some (PStr (py ''Head''))) \<and>
      (\<exists>v. map_of approvals (KInt 1) = Some (PDict v) \<and>
           map_of v (KStr (py ''role'')) = Some (PStr (py ''Lawyer'')))) \<and>
   build_data (\<lambda>key val. None) (PDict document_only_request_data) = Inr document_only_data \<and>
   \<not> dict_contains document_only_data (KStr (py ''approvement_data''))"
proof -
  let ?persons =
    "[PDict [(KStr k_Position, PStr (py ''Head'')),
             (KStr k_Executor, PStr (py ''Kim'')),
             (KStr k_ExecutionDate, PStr (py ''2024-02-01'')),
             (KStr k_ApprovalResult, PBool True),
             (KStr k_ExecutionResult, PStr (py ''ok''))],
      PDict [(KStr k_Position, PStr (py ''Lawyer'')),
             (KStr k_Executor, PStr (py ''Lee'')),
             (KStr k_ExecutionDate, PStr (py ''2024-02-02'')),
             (KStr k_ApprovalResult, PBool False),
             (KStr k_ExecutionResult, PStr (py ''no''))]]"
  have sec: "map_of example_request_data (KStr k_ApprovalData) = Some (PList ?persons)"
    by (simp add: example_request_data_def k_defs)
  from approvement_data_reindexed [OF build_data_example] sec
  obtain approvals where
    look: "map_of example_data (KStr (py ''approvement_data'')) = Some (PDict approvals)" and
    keys: "map fst approvals = map (\<lambda>i. KInt (int i)) [0..<length ?persons]"
    by blast
  have a: "approvals = [(KInt 0,
               PDict [(KStr (py ''role''), PStr (py ''Head'')),
                      (KStr (py ''name''), PStr (py ''Kim'')),
                      (KStr (py ''sign_date''), PStr (py ''2024-02-01'')),
                      (KStr (py ''approvement_mark''), PBool True),
                      (KStr (py ''comment''), PStr (py ''ok''))]),
              (KInt 1,
               PDict [(KStr (py ''role''), PStr (py ''Lawyer'')),
                      (KStr (py ''name''), PStr (py ''Lee'')),
                      (KStr (py ''sign_date''), PStr (py ''2024-02-02'')),
                      (KStr (py ''approvement_mark''), PBool False),
                      (KStr (py ''comment''), PStr (py ''no''))])]"
    using look by (simp add: example_data_def py_def)
  have absent: "\<not> dict_contains document_only_request_data (KStr k_ApprovalData)"
    by (simp add: dict_contains_def document_only_request_data_def k_defs)
  with approvement_data_reindexed [OF build_data_document_only]
  have "\<not> dict_contains document_only_data (KStr (py ''approvement_data''))"
    by blast
  with build_data_example build_data_document_only look keys a show ?thesis
    by (simp add: py_def)
qed

text \<open>
  Claim C8, as the code has it. Whenever the mapper returns a presentation model, the
  document section of the payload is a dictionary that holds name, number, registration
  date and registrar, and \<open>document_data\<close> is made of these four values and of
  \<open>prepared_by\<close>, which is the preparer of the section, or the empty string when the
  section has none. No other field has a default: every present signature, files,
  approval or QR section holds each field that the mapper reads from it.
\<close>

theorem document_data_fields:
  assumes "build_data pr (PDict request_data) = Inr data"
  shows "\<exists>sec name number date registrar.
      map_of request_data (KStr k_DocumentData) = Some (PDict sec) \<and>
      map_of sec (KStr k_Name) = Some name \<and>
      map_of sec (KStr k_DocumentNumber) = Some number \<and>
      map_of sec (KStr k_RegistrationDate) = Some date \<and>
      map_of sec (KStr k_RegisteredBy) = Some registrar \<and>
      map_of data (KStr (py ''document_data'')) =
        Some (PDict [(KStr (py ''document_name''), name),
                     (KStr (py ''document_number''), number),
                     (KStr (py ''registration_date''), date),
                     (KStr (py ''registered_by''), registrar),
                     (KStr (py ''prepared_by''),
                      case map_of sec (KStr k_PreparedBy) of None \<Rightarrow> PStr [] | Some v \<Rightarrow> v)]) \<and>
      (\<forall>s. map_of request_data (KStr k_SignatureData) = Some s \<longrightarrow>
           has_fields s [k_PublicKey, k_SignedBy, k_SignDate, k_StartDate, k_EndDate,
                         k_IssuedBy, k_IssuedTo]) \<and>
      (\<forall>fs. map_of request_data (KStr k_FilesData) = Some fs \<longrightarrow>
           (\<exists>entries. fs = PDict entries \<and>
              list_all (\<lambda>(fname, file_data).
                has_fields file_data [k_AttachedFile, k_SignDate, k_SignedBy, k_AttachedBy])
                entries)) \<and>
      (\<forall>persons. map_of request_data (KStr k_ApprovalData) = Some (PList persons) \<longrightarrow>
           list_all (\<lambda>person. has_fields person
             [k_Position, k_Executor, k_ExecutionDate, k_ApprovalResult, k_ExecutionResult])
             persons) \<and>
      (\<forall>qr. map_of request_data (KStr k_QRData) = Some qr \<longrightarrow>
           has_fields qr [k_QRBinary, k_OriginalLink])"
proof -
  from assms obtain doc d1 d2 d3 where
    doc: "document_data request_data = Inr doc" and
    d1: "add_sign_data request_data [(KStr (py ''document_data''), PDict doc)] = Inr d1" and
    d2: "add_attached_files request_data d1 = Inr d2" and
    d3: "add_approvement_data request_data d2 = Inr d3" and
    d4: "add_qr_data request_data d3 = Inr data"
    by (auto elim: build_data_steps)
  have "map_of data (KStr (py ''document_data'')) = map_of d3 (KStr (py ''document_data''))"
    by (rule add_qr_data_other [OF d4]) (simp add: py_def)
  also have "\<dots> = map_of d2 (KStr (py ''document_data''))"
    by (rule add_approvement_data_other [OF d3]) (simp add: py_def)
  also have "\<dots> = map_of d1 (KStr (py ''document_data''))"
    by (rule add_attached_files_other [OF d2]) (simp add: py_def)
  also have "\<dots> = map_of [(KStr (py ''document_data''), PDict doc)] (KStr (py ''document_data''))"
    by (rule add_sign_data_other [OF d1]) (simp add: py_def)
  finally have look: "map_of data (KStr (py ''document_data'')) = Some (PDict doc)"
    by simp
  from doc [unfolded document_data_Inr] look
    add_sign_data_fields [OF d1] add_attached_files_fields [OF d2]
    add_approvement_data_fields [OF d3] add_qr_data_fields [OF d4]
  show ?thesis by blast
qed

theorem document_data_fields_witness:
  "build_data (\<lambda>key val. None) (PDict example_request_data) = Inr example_data \<and>
   map_of example_request_data (KStr k_DocumentData) =
     Some (PDict [(KStr k_Name, PStr (py ''Act'')),
                  (KStr k_DocumentNumber, PInt 42),
                  (KStr k_RegistrationDate, PStr (py ''2024-01-31'')),
                  (KStr k_RegisteredBy, PStr (py ''Ann''))]) \<and>
   map_of example_data (KStr (py ''document_data'')) =
     Some (PDict [(KStr (py ''document_name''), PStr (py ''Act'')),
                  (KStr (py ''document_number''), PInt 42),
                  (KStr (py ''registration_date''), PStr (py ''2024-01-31'')),
                  (KStr (py ''registered_by''), PStr (py ''Ann'')),
                  (KStr (py ''prepared_by''), PStr [])])"
proof -
  from document_data_fields [OF build_data_example]
  obtain sec name number date registrar where
    "map_of example_request_data (KStr k_DocumentData) = Some (PDict sec)"
    "map_of sec (KStr k_Name) = Some name"
    "map_of sec (KStr k_DocumentNumber) = Some number"
    "map_of sec (KStr k_RegistrationDate) = Some date"
    "map_of sec (KStr k_RegisteredBy) = Some registrar"
    "map_of example_data (KStr (py ''document_data'')) =
        Some (PDict [(KStr (py ''document_name''), name),
                     (KStr (py ''document_number''), number),
                     (KStr (py ''registration_date''), date),
                     (KStr (py ''registered_by''), registrar),
                     (KStr (py ''prepared_by''),
                      case map_of sec (KStr k_PreparedBy) of None \<Rightarrow> PStr [] | Some v \<Rightarrow> v)])"
    by blast
  then show ?thesis
    using build_data_example by (clarsimp simp: example_request_data_def k_defs)
qed

text \<open>
  The claim C8 as it is worded has the five fields produced for every payload whose
  document section is present. A present section without the four required fields makes
  the mapper raise \<open>KeyError\<close>.
\<close>

theorem document_section_without_fields_raises:
  "dict_contains [(KStr k_DocumentData, PDict [])] (KStr k_DocumentData) \<and>
   build_data (\<lambda>key val. None) (PDict [(KStr k_DocumentData, PDict [])]) = Inl KeyError"
  by (simp add: build_data_def obj_items_def document_data_def section_field_def
        dict_getitem_def obj_getitem_def dict_contains_def)

subsection \<open>Payloads for which the mapper returns\<close>

lemma has_fields_getitem:
  assumes "has_fields obj ks" "k \<in> set ks"
  shows "\<exists>v. obj_getitem obj k = Inr v"
  using assms
  by (cases obj) (auto simp: has_fields_def list_all_iff dict_contains_def obj_getitem_def
        dict_getitem_def)

lemma has_fields_section_field:
  assumes "map_of rd (KStr sec) = Some s" "has_fields s ks" "k \<in> set ks"
  shows "\<exists>v. section_field rd sec k = Inr v"
  using has_fields_getitem [OF assms(2,3)] assms(1)
  by (auto simp: section_field_def dict_getitem_def)

lemma dict_literal_returns:
  "list_all (\<lambda>(n, r). \<exists>v. r = Inr v) fs \<Longrightarrow> \<exists>d. dict_literal fs = Inr d"
proof (induction fs)
  case Nil
  show ?case by simp
next
  case (Cons f fs)
  obtain n r where f: "f = (n, r)" by (cases f)
  from Cons show ?case by (auto simp: f)
qed

lemma cor_file_data_returns:
  assumes "has_fields file_data [k_AttachedFile, k_SignDate, k_SignedBy, k_AttachedBy]"
  shows "\<exists>d. cor_file_data file_data = Inr d"
  unfolding cor_file_data_def
  by (rule dict_literal_returns) (simp add: has_fields_getitem [OF assms])

lemma approvement_entry_returns:
  assumes "has_fields person
       [k_Position, k_Executor, k_ExecutionDate, k_ApprovalResult, k_ExecutionResult]"
  shows "\<exists>e. approvement_entry person = Inr e"
  unfolding approvement_entry_def
  by (rule dict_literal_returns) (simp add: has_fields_getitem [OF assms])

lemma attached_files_loop_returns:
  "list_all (\<lambda>(fname, file_data).
      has_fields file_data [k_AttachedFile, k_SignDate, k_SignedBy, k_AttachedBy]) entries
   \<Longrightarrow> \<exists>res. attached_files_loop acc entries = Inr res"
proof (induction entries arbitrary: acc)
  case Nil
  show ?case by simp
next
  case (Cons entry entries)
  obtain fname file_data where entry: "entry = (fname, file_data)" by (cases entry)
  from Cons.prems obtain d where "cor_file_data file_data = Inr d"
    using cor_file_data_returns [of file_data] by (auto simp: entry)
  with Cons.IH Cons.prems show ?case by (simp add: entry)
qed

lemma approvement_loop_returns:
  "list_all (\<lambda>person. has_fields person
       [k_Position, k_Executor, k_ExecutionDate, k_ApprovalResult, k_ExecutionResult]) persons
   \<Longrightarrow> \<exists>res. approvement_loop acc index persons = Inr res"
proof (induction persons arbitrary: acc index)
  case Nil
  show ?case by simp
next
  case (Cons person persons)
  from Cons.prems obtain e where "approvement_entry person = Inr e"
    using approvement_entry_returns [of person] by auto
  with Cons.IH Cons.prems show ?case by simp
qed

lemma document_data_returns:
  assumes "map_of rd (KStr k_DocumentData) = Some s"
    and "has_fields s [k_Name, k_DocumentNumber, k_RegistrationDate, k_RegisteredBy]"
  shows "\<exists>doc. document_data rd = Inr doc"
proof -
  from assms(2) obtain d where "s = PDict d" by (cases s) (simp_all add: has_fields_def)
  with assms(1) have "\<exists>v. and_then (dict_getitem rd (KStr k_DocumentData))
                          (\<lambda>s. obj_get s k_PreparedBy (PStr [])) = Inr v"
    by (simp add: dict_getitem_def obj_get_def)
  then show ?thesis
    unfolding document_data_def
    by (intro dict_literal_returns) (simp add: has_fields_section_field [OF assms])
qed

lemma add_sign_data_returns:
  assumes "section_ok rd k_SignatureData
        (\<lambda>s. has_fields s [k_PublicKey, k_SignedBy, k_SignDate, k_StartDate, k_EndDate,
                            k_IssuedBy, k_IssuedTo])"
  shows "\<exists>d'. add_sign_data rd d = Inr d'"
proof (cases "map_of rd (KStr k_SignatureData)")
  case None
  then show ?thesis by (simp add: add_sign_data_def dict_contains_def)
next
  case (Some s)
  with assms have f: "has_fields s [k_PublicKey, k_SignedBy, k_SignDate, k_StartDate, k_EndDate,
                            k_IssuedBy, k_IssuedTo]"
    by (simp add: section_ok_def)
  from has_fields_section_field [OF Some f, of k_PublicKey]
  obtain open_key where ok: "section_field rd k_SignatureData k_PublicKey = Inr open_key"
    by auto
  have "\<exists>sd. dict_literal
             [(py ''signed_by'', section_field rd k_SignatureData k_SignedBy),
              (py ''sign_date'', section_field rd k_SignatureData k_SignDate),
              (py ''start_time'', section_field rd k_SignatureData k_StartDate),
              (py ''end_time'', section_field rd k_SignatureData k_EndDate),
              (py ''provider'', section_field rd k_SignatureData k_IssuedBy),
              (py ''receiver'', section_field rd k_SignatureData k_IssuedTo),
              (py ''open_key'', Inr open_key)] = Inr sd"
    by (intro dict_literal_returns) (simp add: has_fields_section_field [OF Some f])
  then obtain sd where "dict_literal
             [(py ''signed_by'', section_field rd k_SignatureData k_SignedBy),
              (py ''sign_date'', section_field rd k_SignatureData k_SignDate),
              (py ''start_time'', section_field rd k_SignatureData k_StartDate),
              (py ''end_time'', section_field rd k_SignatureData k_EndDate),
              (py ''provider'', section_field rd k_SignatureData k_IssuedBy),
              (py ''receiver'', section_field rd k_SignatureData k_IssuedTo),
              (py ''open_key'', Inr open_key)] = Inr sd" ..
  with ok Some show ?thesis
    by (simp add: add_sign_data_def dict_contains_def del: dict_literal.simps)
qed

lemma add_attached_files_returns:
  assumes "section_ok rd k_FilesData
        (\<lambda>fs. case fs of
                 PDict entries \<Rightarrow>
                   list_all (\<lambda>(fname, file_data).
                     has_fields file_data [k_AttachedFile, k_SignDate, k_SignedBy, k_AttachedBy])
                     entries
               | _ \<Rightarrow> False)"
  shows "\<exists>d'. add_attached_files rd d = Inr d'"
proof (cases "map_of rd (KStr k_FilesData)")
  case None
  then show ?thesis by (simp add: add_attached_files_def dict_contains_def)
next
  case (Some fs)
  with assms obtain entries where fs: "fs = PDict entries"
    and all: "list_all (\<lambda>(fname, file_data).
      has_fields file_data [k_AttachedFile, k_SignDate, k_SignedBy, k_AttachedBy]) entries"
    by (cases fs) (simp_all add: section_ok_def)
  from attached_files_loop_returns [OF all, of "[]"]
  obtain res where "attached_files_loop [] entries = Inr res" ..
  with Some fs show ?thesis
    by (simp add: add_attached_files_def dict_contains_def dict_getitem_def obj_items_def)
qed

lemma add_approvement_data_returns:
  assumes "section_ok rd k_ApprovalData
        (\<lambda>a. case a of
                PList persons \<Rightarrow>
                  list_all (\<lambda>person. has_fields person
                    [k_Position, k_Executor, k_ExecutionDate, k_ApprovalResult,
                     k_ExecutionResult]) persons
              | _ \<Rightarrow> False)"
  shows "\<exists>d'. add_approvement_data rd d = Inr d'"
proof (cases "map_of rd (KStr k_ApprovalData)")
  case None
  then show ?thesis by (simp add: add_approvement_data_def dict_contains_def)
next
  case (Some a)
  with assms obtain persons where a: "a = PList persons"
    and all: "list_all (\<lambda>person. has_fields person
                    [k_Position, k_Executor, k_ExecutionDate, k_ApprovalResult,
                     k_ExecutionResult]) persons"
    by (cases a) (simp_all add: section_ok_def)
  from approvement_loop_returns [OF all, of "[]" 0]
  obtain res where "approvement_loop [] 0 persons = Inr res" ..
  with Some a show ?thesis
    by (simp add: add_approvement_data_def dict_contains_def dict_getitem_def obj_iter_def)
qed

lemma add_qr_data_returns:
  assumes "section_ok rd k_QRData (\<lambda>s. has_fields s [k_QRBinary, k_OriginalLink])"
  shows "\<exists>d'. add_qr_data rd d = Inr d'"
proof (cases "map_of rd (KStr k_QRData)")
  case None
  then show ?thesis by (simp add: add_qr_data_def dict_contains_def)
next
  case (Some s)
  with assms have f: "has_fields s [k_QRBinary, k_OriginalLink]"
    by (simp add: section_ok_def)
  have "\<exists>qr. dict_literal
             [(py ''qr_binary'', section_field rd k_QRData k_QRBinary),
              (py ''qr_link'', section_field rd k_QRData k_OriginalLink)] = Inr qr"
    by (intro dict_literal_returns) (simp add: has_fields_section_field [OF Some f])
  then obtain qr where "dict_literal
             [(py ''qr_binary'', section_field rd k_QRData k_QRBinary),
              (py ''qr_link'', section_field rd k_QRData k_OriginalLink)] = Inr qr" ..
  with Some show ?thesis
    by (simp add: add_qr_data_def dict_contains_def del: dict_literal.simps)
qed

lemma print_items_returns:
  "list_all (\<lambda>(key, val). print_item key val = None) items \<Longrightarrow> print_items print_item items = Inr ()"
proof (induction items)
  case Nil
  show ?case by simp
next
  case (Cons item items)
  obtain key val where item: "item = (key, val)" by (cases item)
  from Cons show ?case by (simp add: item)
qed

lemma build_data_returns:
  assumes "well_formed rd" "print_items pr rd = Inr ()"
  shows "\<exists>data. build_data pr (PDict rd) = Inr data"
proof -
  from assms(1) obtain s where "map_of rd (KStr k_DocumentData) = Some s"
    and "has_fields s [k_Name, k_DocumentNumber, k_RegistrationDate, k_RegisteredBy]"
    by (auto simp: well_formed_def split: option.splits)
  from document_data_returns [OF this] obtain doc where doc: "document_data rd = Inr doc" ..
  from assms(1) add_sign_data_returns [of rd "[(KStr (py ''document_data''), PDict doc)]"]
  obtain d1 where d1: "add_sign_data rd [(KStr (py ''document_data''), PDict doc)] = Inr d1"
    by (auto simp: well_formed_def)
  from assms(1) add_attached_files_returns [of rd d1]
  obtain d2 where d2: "add_attached_files rd d1 = Inr d2"
    by (auto simp: well_formed_def)
  from assms(1) add_approvement_data_returns [of rd d2]
  obtain d3 where d3: "add_approvement_data rd d2 = Inr d3"
    by (auto simp: well_formed_def)
  from assms(1) add_qr_data_returns [of rd d3]
  obtain d4 where d4: "add_qr_data rd d3 = Inr d4"
    by (auto simp: well_formed_def)
  from assms(2) doc d1 d2 d3 d4 show ?thesis
    by (simp add: build_data_def obj_items_def)
qed

subsection \<open>The top-level keys of the presentation model\<close>

lemma build_data_full:
  "build_data (\<lambda>key val. None) (PDict full_request_data) = Inr full_data"
  by (simp add: build_data_def obj_items_def document_data_def section_field_def
        dict_getitem_def obj_getitem_def obj_get_def dict_get_def dict_contains_def
        add_sign_data_def add_attached_files_def add_approvement_data_def add_qr_data_def
        cor_file_data_def approvement_entry_def obj_iter_def
        full_request_data_def full_data_def k_defs py_def)

lemma well_formed_full: "well_formed full_request_data"
  by (simp add: well_formed_def section_ok_def has_fields_def dict_contains_def
        full_request_data_def k_defs)

text \<open>
  Claim C5. Whenever the mapper returns a presentation model for a parsed payload, the
  payload is a JSON object, the top-level keys of the model are among \<open>document_data\<close>,
  \<open>sign_data\<close>, \<open>attached_files\<close>, \<open>approvement_data\<close> and \<open>qr_data\<close>, and each of these keys
  is present if and only if the corresponding section is present in the payload. The
  mapper does return such a model for every well-formed payload that \<open>print\<close> accepts:
  there \<open>document_data\<close> is present, and each other key is present exactly when its section
  is.
\<close>

theorem build_data_top_level_keys:
  "(build_data pr payload = Inr data \<longrightarrow>
      (\<exists>request_data. payload = PDict request_data \<and>
         fst ` set data \<subseteq> KStr ` {py ''document_data'', py ''sign_data'',
            py ''attached_files'', py ''approvement_data'', py ''qr_data''} \<and>
         (dict_contains data (KStr (py ''document_data''))
            \<longleftrightarrow> dict_contains request_data (KStr k_DocumentData)) \<and>
         (dict_contains data (KStr (py ''sign_data''))
            \<longleftrightarrow> dict_contains request_data (KStr k_SignatureData)) \<and>
         (dict_contains data (KStr (py ''attached_files''))
            \<longleftrightarrow> dict_contains request_data (KStr k_FilesData)) \<and>
         (dict_contains data (KStr (py ''approvement_data''))
            \<longleftrightarrow> dict_contains request_data (KStr k_ApprovalData)) \<and>
         (dict_contains data (KStr (py ''qr_data''))
            \<longleftrightarrow> dict_contains request_data (KStr k_QRData)))) \<and>
   (well_formed rd \<and> print_items pr rd = Inr () \<longrightarrow>
      (\<exists>model. build_data pr (PDict rd) = Inr model \<and>
         dict_contains model (KStr (py ''document_data'')) \<and>
         (dict_contains model (KStr (py ''sign_data''))
            \<longleftrightarrow> dict_contains rd (KStr k_SignatureData)) \<and>
         (dict_contains model (KStr (py ''attached_files''))
            \<longleftrightarrow> dict_contains rd (KStr k_FilesData)) \<and>
         (dict_contains model (KStr (py ''approvement_data''))
            \<longleftrightarrow> dict_contains rd (KStr k_ApprovalData)) \<and>
         (dict_contains model (KStr (py ''qr_data''))
            \<longleftrightarrow> dict_contains rd (KStr k_QRData))))"
proof (intro conjI impI)
  assume "build_data pr payload = Inr data"
  then show "\<exists>request_data. payload = PDict request_data \<and>
         fst ` set data \<subseteq> KStr ` {py ''document_data'', py ''sign_data'',
            py ''attached_files'', py ''approvement_data'', py ''qr_data''} \<and>
         (dict_contains data (KStr (py ''document_data''))
            \<longleftrightarrow> dict_contains request_data (KStr k_DocumentData)) \<and>
         (dict_contains data (KStr (py ''sign_data''))
            \<longleftrightarrow> dict_contains request_data (KStr k_SignatureData)) \<and>
         (dict_contains data (KStr (py ''attached_files''))
            \<longleftrightarrow> dict_contains request_data (KStr k_FilesData)) \<and>
         (dict_contains data (KStr (py ''approvement_data''))
            \<longleftrightarrow> dict_contains request_data (KStr k_ApprovalData)) \<and>
         (dict_contains data (KStr (py ''qr_data''))
            \<longleftrightarrow> dict_contains request_data (KStr k_QRData))"
    by (rule build_data_keys_of_sections)
next
  assume "well_formed rd \<and> print_items pr rd = Inr ()"
  then have "\<exists>model. build_data pr (PDict rd) = Inr model"
    by (simp add: build_data_returns)
  then obtain model where model: "build_data pr (PDict rd) = Inr model" ..
  from build_data_keys_of_sections [OF model]
  have keys:
    "dict_contains model (KStr (py ''document_data'')) \<longleftrightarrow> dict_contains rd (KStr k_DocumentData)"
    "dict_contains model (KStr (py ''sign_data'')) \<longleftrightarrow> dict_contains rd (KStr k_SignatureData)"
    "dict_contains model (KStr (py ''attached_files'')) \<longleftrightarrow> dict_contains rd (KStr k_FilesData)"
    "dict_contains model (KStr (py ''approvement_data'')) \<longleftrightarrow> dict_contains rd (KStr k_ApprovalData)"
    "dict_contains model (KStr (py ''qr_data'')) \<longleftrightarrow> dict_contains rd (KStr k_QRData)"
    by simp_all
  from model obtain doc where "document_data rd = Inr doc"
    by (auto elim: build_data_steps)
  from document_data_section [OF this] keys(1)
  have "dict_contains model (KStr (py ''document_data''))" by simp
  with model keys(2-5)
  show "\<exists>model. build_data pr (PDict rd) = Inr model \<and>
         dict_contains model (KStr (py ''document_data'')) \<and>
         (dict_contains model (KStr (py ''sign_data''))
            \<longleftrightarrow> dict_contains rd (KStr k_SignatureData)) \<and>
         (dict_contains model (KStr (py ''attached_files''))
            \<longleftrightarrow> dict_contains rd (KStr k_FilesData)) \<and>
         (dict_contains model (KStr (py ''approvement_data''))
            \<longleftrightarrow> dict_contains rd (KStr k_ApprovalData)) \<and>
         (dict_contains model (KStr (py ''qr_data''))
            \<longleftrightarrow> dict_contains rd (KStr k_QRData))"
    by blast
qed

theorem build_data_top_level_keys_witness:
  "well_formed full_request_data \<and>
   print_items (\<lambda>key val. None) full_request_data = Inr () \<and>
   build_data (\<lambda>key val. None) (PDict full_request_data) = Inr full_data \<and>
   map fst full_data = [KStr (py ''document_data''), KStr (py ''sign_data''),
                        KStr (py ''attached_files''), KStr (py ''approvement_data''),
                        KStr (py ''qr_data'')] \<and>
   dict_contains full_data (KStr (py ''sign_data'')) \<and>
   dict_contains full_data (KStr (py ''qr_data'')) \<and>
   build_data (\<lambda>key val. None) (PDict document_only_request_data) = Inr document_only_data \<and>
   map fst document_only_data = [KStr (py ''document_data'')] \<and>
   \<not> dict_contains document_only_data (KStr (py ''sign_data'')) \<and>
   \<not> dict_contains document_only_data (KStr (py ''qr_data''))"
proof -
  have pr: "print_items (\<lambda>key val. None) full_request_data = Inr ()"
    by (simp add: print_items_returns list_all_iff split_beta)
  have present: "dict_contains full_request_data (KStr k_SignatureData)"
    "dict_contains full_request_data (KStr k_QRData)"
    by (simp_all add: dict_contains_def full_request_data_def k_defs)
  have absent: "\<not> dict_contains document_only_request_data (KStr k_SignatureData)"
    "\<not> dict_contains document_only_request_data (KStr k_QRData)"
    by (simp_all add: dict_contains_def document_only_request_data_def k_defs)
  note thm_full = build_data_top_level_keys
    [of "\<lambda>key val. None" "PDict full_request_data" full_data full_request_data]
  note thm_doc = build_data_top_level_keys
    [of "\<lambda>key val. None" "PDict document_only_request_data" document_only_data
        document_only_request_data]
  from thm_full well_formed_full pr build_data_full present
  have full: "dict_contains full_data (KStr (py ''sign_data''))"
    "dict_contains full_data (KStr (py ''qr_data''))"
    by auto
  from thm_doc build_data_document_only absent
  have doc: "\<not> dict_contains document_only_data (KStr (py ''sign_data''))"
    "\<not> dict_contains document_only_data (KStr (py ''qr_data''))"
    by auto
  have "map fst full_data = [KStr (py ''document_data''), KStr (py ''sign_data''),
                        KStr (py ''attached_files''), KStr (py ''approvement_data''),
                        KStr (py ''qr_data'')]"
    "map fst document_only_data = [KStr (py ''document_data'')]"
    by (simp_all add: full_data_def document_only_data_def)
  with well_formed_full pr build_data_full build_data_document_only full doc
  show ?thesis by simp
qed

end
